theory Spec2Isabelle
  imports Main
begin

section \<open>HMI agent: a shallow embedding of \<open>src/agents/hmiAgent.js\<close>\<close>

text \<open>
  The class \<open>HMIAgent\<close> turns the text of a functional design specification into a list
  of screens, a navigation workflow and per-screen layout specifications. The definitions
  below follow the methods of that class. Where the class defines a method twice, the
  later definition is the one JavaScript keeps, and the one embedded here.

  Modelling conventions.
  \<^item> JavaScript strings are \<open>string\<close>; the text is taken to be ASCII, so that
    \<open>toLowerCase\<close>, \<open>toUpperCase\<close>, \<open>trim\<close> and the regular-expression classes
    \<open>\s\<close>, \<open>\d\<close>, \<open>\w\<close> are the ASCII ones.
  \<^item> A property that may be absent is an \<open>option\<close>; \<open>None\<close> is \<open>undefined\<close>.
  \<^item> Coordinates are integer JSON numbers. \<open>a || b\<close> on a number takes \<open>b\<close> when \<open>a\<close>
    is absent or \<open>0\<close>, on a string when it is absent or empty.
  \<^item> A thrown exception is a value \<open>Inl e\<close> of a sum type.
  \<^item> The language model is an oracle: its reply is a parameter of the method that calls it.
\<close>

subsection \<open>Strings\<close>

definition upperLetters :: string where
  "upperLetters = ''ABCDEFGHIJKLMNOPQRSTUVWXYZ''"

definition lowerLetters :: string where
  "lowerLetters = ''abcdefghijklmnopqrstuvwxyz''"

definition digits :: string where
  "digits = ''0123456789''"

definition lowerChar :: "char \<Rightarrow> char" where
  "lowerChar c = (case map_of (zip upperLetters lowerLetters) c of Some d \<Rightarrow> d | None \<Rightarrow> c)"

definition upperChar :: "char \<Rightarrow> char" where
  "upperChar c = (case map_of (zip lowerLetters upperLetters) c of Some d \<Rightarrow> d | None \<Rightarrow> c)"

definition toLowerCase :: "string \<Rightarrow> string" where
  "toLowerCase s = map lowerChar s"

definition toUpperCase :: "string \<Rightarrow> string" where
  "toUpperCase s = map upperChar s"

text \<open>\<open>s.startsWith(p)\<close> and \<open>s.includes(sub)\<close>.\<close>

fun startsWith :: "string \<Rightarrow> string \<Rightarrow> bool" where
  "startsWith s [] = True"
| "startsWith [] (p # ps) = False"
| "startsWith (c # cs) (p # ps) = (c = p \<and> startsWith cs ps)"

fun str_includes :: "string \<Rightarrow> string \<Rightarrow> bool" where
  "str_includes [] sub = (sub = [])"
| "str_includes (c # cs) sub = (startsWith (c # cs) sub \<or> str_includes cs sub)"

text \<open>\<open>s.replace(a, b)\<close> with a one-character string \<open>a\<close>: only the first occurrence.\<close>

fun replaceFirst :: "char \<Rightarrow> string \<Rightarrow> string \<Rightarrow> string" where
  "replaceFirst a b [] = []"
| "replaceFirst a b (c # cs) = (if c = a then b @ cs else c # replaceFirst a b cs)"

text \<open>The characters \<open>\s\<close> matches and \<open>trim\<close> strips: space, tab, LF, VT, FF, CR.\<close>

definition isSpace :: "char \<Rightarrow> bool" where
  "isSpace c = (c \<in> set [CHR '' '', CHR 0x09, CHR 0x0A, CHR 0x0B, CHR 0x0C, CHR 0x0D])"

definition isDigit :: "char \<Rightarrow> bool" where
  "isDigit c = (c \<in> set digits)"

definition isUpper :: "char \<Rightarrow> bool" where
  "isUpper c = (c \<in> set upperLetters)"

definition isWord :: "char \<Rightarrow> bool" where
  "isWord c = (c \<in> set (lowerLetters @ upperLetters @ digits @ ''_''))"

definition trim :: "string \<Rightarrow> string" where
  "trim s = rev (dropWhile isSpace (rev (dropWhile isSpace s)))"

text \<open>\<open>a || b\<close> for a number and for a string.\<close>

definition orNum :: "int option \<Rightarrow> int \<Rightarrow> int" where
  "orNum a b = (case a of None \<Rightarrow> b | Some n \<Rightarrow> if n = 0 then b else n)"

definition orStr :: "string option \<Rightarrow> string \<Rightarrow> string" where
  "orStr a b = (case a of None \<Rightarrow> b | Some s \<Rightarrow> if s = [] then b else s)"

subsection \<open>Screens, elements and the document context\<close>

record screen =
  screenId :: "string option"
  screenName :: string
  screenPurpose :: "string option"
  screenType :: "string option"

text \<open>\<open>position: {x, y, width, height}\<close>.\<close>

record position =
  pos_x :: "int option"
  pos_y :: "int option"
  pos_width :: "int option"
  pos_height :: "int option"

text \<open>
  An entry of \<open>elements[]\<close>. \<open>el_style\<close> is the style object as a list of its properties;
  \<open>el_headers\<close> and \<open>el_rows\<close> are the extra properties of a data table.
\<close>

record element =
  el_type :: string
  el_label :: "string option"
  el_position :: "position option"
  el_style :: "(string \<times> string) list"
  el_purpose :: "string option"
  el_userAction :: "string option"
  el_headers :: "string list option"
  el_rows :: "nat option"

text \<open>The result of \<open>extractSystemKeywords\<close>.\<close>

record keywordProfile =
  systemType :: "string list"
  operations :: "string list"
  components :: "string list"
  controls :: "string list"

text \<open>The result of \<open>getDocumentContext\<close>.\<close>

record documentContext =
  documentSample :: string
  systemKeywords :: keywordProfile
  totalScreens :: nat
  screenNames :: "string list"
  screenList :: "screen list"
  fdsContent :: string

definition mkPos :: "int \<Rightarrow> int \<Rightarrow> int \<Rightarrow> int \<Rightarrow> position option" where
  "mkPos a b w h = Some \<lparr>pos_x = Some a, pos_y = Some b, pos_width = Some w, pos_height = Some h\<rparr>"

text \<open>An element literal \<open>{type, label, position, style}\<close>.\<close>

definition mkEl :: "string \<Rightarrow> string \<Rightarrow> position option \<Rightarrow> (string \<times> string) list \<Rightarrow> element" where
  "mkEl t l p st = \<lparr>el_type = t, el_label = Some l, el_position = p, el_style = st,
     el_purpose = None, el_userAction = None, el_headers = None, el_rows = None\<rparr>"

subsection \<open>The agent's state\<close>

text \<open>
  The fields of an \<open>HMIAgent\<close> the embedded methods touch: the session data and the
  progress callback. \<open>updateProgress\<close> is a callback the caller installs (by default it
  prints); its calls are kept as a log of \<open>(step, message)\<close> pairs. The messages are given
  without the emoji the source puts in front of them.
\<close>

record sessionData =
  sd_fdsContent :: "string option"
  sd_screenList :: "screen list option"

record agent =
  session :: sessionData
  progress :: "(string \<times> string) list"

definition updateProgress :: "string \<Rightarrow> string \<Rightarrow> agent \<Rightarrow> agent" where
  "updateProgress step message a = a\<lparr>progress := progress a @ [(step, message)]\<rparr>"

subsection \<open>The keyword extractor: \<open>extractSystemKeywords\<close>\<close>

text \<open>
  \<open>\b\<close>: the characters on the two sides differ in being word characters; the outside of
  the text counts as a non-word character.
\<close>

definition wordBoundary :: "char option \<Rightarrow> char option \<Rightarrow> bool" where
  "wordBoundary left right =
     ((case left of None \<Rightarrow> False | Some c \<Rightarrow> isWord c)
      \<noteq> (case right of None \<Rightarrow> False | Some c \<Rightarrow> isWord c))"

definition firstChar :: "string \<Rightarrow> char option" where
  "firstChar s = (case s of [] \<Rightarrow> None | c # _ \<Rightarrow> Some c)"

text \<open>
  The number of matches of \<open>/\bpattern\b/gi\<close> in the lower-cased text, \<open>prev\<close> being the
  character before the text. Every keyword is made of word characters, so two matches
  never overlap and the global match finds every position counted here.
\<close>

fun wordMatches :: "string \<Rightarrow> char option \<Rightarrow> string \<Rightarrow> nat" where
  "wordMatches pattern prev [] = 0"
| "wordMatches pattern prev (c # cs) =
     (if wordBoundary prev (Some c) \<and> startsWith (c # cs) pattern
         \<and> wordBoundary (if pattern = [] then prev else Some (last pattern))
               (firstChar (drop (length pattern) (c # cs)))
      then 1 else 0)
     + wordMatches pattern (Some c) cs"

definition systemPatterns :: "(string \<times> string list) list" where
  "systemPatterns =
    [(''generator_control'', [''generator'', ''standby'', ''backup'', ''power'', ''diesel'',
        ''engine'', ''alternator'', ''utility'', ''transfer'', ''switch'']),
     (''water_treatment'', [''water'', ''treatment'', ''filtration'', ''purification'',
        ''clarification'', ''chlorination'', ''disinfection'']),
     (''gas_analyzer'', [''gas'', ''analyzer'', ''sf6'', ''concentration'', ''ppm'',
        ''measurement'', ''spectrometer'']),
     (''motor_control'', [''motor'', ''drive'', ''speed'', ''torque'', ''rpm'', ''inverter'',
        ''starter'']),
     (''pump_system'', [''pump'', ''flow'', ''pressure'', ''suction'', ''discharge'',
        ''centrifugal'', ''impeller'']),
     (''cylinder_control'', [''cylinder'', ''extend'', ''retract'', ''acting'', ''pneumatic'',
        ''hydraulic'', ''actuator'']),
     (''plc_system'', [''plc'', ''logic'', ''controller'', ''input'', ''output'', ''ladder'',
        ''programming'']),
     (''hvac_system'', [''hvac'', ''temperature'', ''heating'', ''cooling'', ''ventilation'',
        ''air'', ''conditioning'']),
     (''conveyor_system'', [''conveyor'', ''belt'', ''transport'', ''material'', ''handling'',
        ''sorting'']),
     (''valve_control'', [''valve'', ''open'', ''close'', ''position'', ''actuator'', ''flow'',
        ''control'']),
     (''power_generation'', [''generator'', ''turbine'', ''power'', ''electrical'', ''grid'',
        ''transmission'']),
     (''chemical_processing'', [''chemical'', ''reactor'', ''distillation'', ''separation'',
        ''catalyst'', ''process'']),
     (''oil_gas_processing'', [''oil'', ''gas'', ''refinery'', ''crude'', ''petroleum'',
        ''hydrocarbon'', ''pipeline'']),
     (''manufacturing'', [''manufacturing'', ''production'', ''assembly'', ''fabrication'',
        ''quality'', ''inspection'']),
     (''packaging'', [''packaging'', ''labeling'', ''sealing'', ''filling'', ''wrapping'',
        ''bottling'']),
     (''food_beverage'', [''food'', ''beverage'', ''pasteurization'', ''sterilization'',
        ''fermentation'', ''mixing''])]"

definition primaryKeywords :: "(string \<times> string list) list" where
  "primaryKeywords =
    [(''generator_control'', [''generator'', ''standby'', ''backup'', ''power'', ''diesel'',
        ''engine'', ''alternator'']),
     (''water_treatment'', [''water'', ''treatment'']),
     (''gas_analyzer'', [''gas'', ''analyzer'']),
     (''motor_control'', [''motor'', ''control'']),
     (''pump_system'', [''pump'', ''system''])]"

text \<open>The score of one system type: the body of the loop over \<open>systemPatterns\<close>.\<close>

definition typeScore :: "string \<Rightarrow> string \<Rightarrow> string list \<Rightarrow> nat" where
  "typeScore lowerContent ty patterns =
     (let counts = map (\<lambda>p. wordMatches p None lowerContent) patterns;
          matchedPatterns = filter (\<lambda>n. n > 0) counts;
          score1 = sum_list counts;
          score2 = (if length matchedPatterns \<ge> 2 then score1 + length matchedPatterns * 2
                    else score1);
          primaries = (case map_of primaryKeywords ty of None \<Rightarrow> [] | Some ps \<Rightarrow> ps)
      in score2 + 5 * length (filter (str_includes lowerContent) primaries))"

definition operationPatterns :: "string list" where
  "operationPatterns =
    [''start'', ''stop'', ''manual'', ''auto'', ''automatic'', ''test'', ''calibrate'',
     ''settings'', ''alarm'', ''reset'', ''transfer'', ''utility'', ''generator'', ''emergency'',
     ''override'', ''load'', ''shed'', ''paralleling'']"

definition componentPatterns :: "string list" where
  "componentPatterns =
    [''sensor'', ''valve'', ''motor'', ''pump'', ''heater'', ''cooler'', ''display'', ''button'',
     ''indicator'', ''engine'', ''alternator'', ''generator'', ''battery'', ''charger'',
     ''voltage'', ''current'', ''frequency'', ''temperature'', ''pressure'', ''rpm'', ''fuel'',
     ''coolant'', ''oil'', ''air'', ''filter'', ''transfer'', ''switch'']"

definition controlPatterns :: "string list" where
  "controlPatterns =
    [''control'', ''monitor'', ''feedback'', ''status'', ''command'', ''setpoint'',
     ''parameter'', ''operating'', ''mode'', ''selector'', ''protection'', ''interlock'',
     ''safety'', ''emergency'']"

text \<open>
  The body of \<open>extractSystemKeywords\<close>. \<open>systemTypeScores\<close> keeps the types of positive score
  in the order of \<open>systemPatterns\<close>; the sort by descending score is stable, so among equal
  scores the earlier type comes first.
\<close>

definition keywordsOf :: "string \<Rightarrow> keywordProfile" where
  "keywordsOf text =
     (let lowerContent = toLowerCase text;
          systemTypeScores = filter (\<lambda>(ty, score). score > 0)
            (map (\<lambda>(ty, patterns). (ty, typeScore lowerContent ty patterns)) systemPatterns);
          sorted = sort_key (\<lambda>(ty, score). - int score) systemTypeScores;
          best = (case sorted of [] \<Rightarrow> [] | (ty, score) # _ \<Rightarrow> if score \<ge> 3 then [ty] else [])
      in \<lparr>systemType = (if best = [] then [''industrial_control''] else best),
          operations = filter (str_includes lowerContent) operationPatterns,
          components = filter (str_includes lowerContent) componentPatterns,
          controls = filter (str_includes lowerContent) controlPatterns\<rparr>)"

text \<open>
  \<open>extractSystemKeywords\<close> as a method of the agent: it neither reads nor writes \<open>this\<close>.
\<close>

definition extractSystemKeywords :: "string \<Rightarrow> agent \<Rightarrow> keywordProfile \<times> agent" where
  "extractSystemKeywords text a = (keywordsOf text, a)"

text \<open>\<open>getDocumentContext\<close> reads the session and calls \<open>extractSystemKeywords\<close>.\<close>

definition getDocumentContext :: "agent \<Rightarrow> documentContext \<times> agent" where
  "getDocumentContext a =
     (let fds = orStr (sd_fdsContent (session a)) [];
          scrList = (case sd_screenList (session a) of None \<Rightarrow> [] | Some l \<Rightarrow> l);
          (kw, a1) = extractSystemKeywords fds a
      in (\<lparr>documentSample = take 2000 fds, systemKeywords = kw, totalScreens = length scrList,
           screenNames = map screenName scrList, screenList = scrList, fdsContent = fds\<rparr>, a1))"

subsection \<open>\<open>validateElementPositions\<close>\<close>

text \<open>
  The \<open>forEach\<close> of \<open>validateElementPositions\<close>, with the index and \<open>currentY\<close> as
  arguments. Each element is copied (\<open>{...element, position: {...}}\<close>) with a new position.
\<close>

definition emptyPosition :: position where
  "emptyPosition = \<lparr>pos_x = None, pos_y = None, pos_width = None, pos_height = None\<rparr>"

definition validX :: "nat \<Rightarrow> position \<Rightarrow> int" where
  "validX index pos = max 20 (orNum (pos_x pos) (50 + int (index mod 3) * 200))"

definition validY :: "int \<Rightarrow> position \<Rightarrow> int" where
  "validY currentY pos = max 120 (orNum (pos_y pos) currentY)"

definition validWidth :: "position \<Rightarrow> int" where
  "validWidth pos = min 400 (max 80 (orNum (pos_width pos) 150))"

definition validHeight :: "position \<Rightarrow> int" where
  "validHeight pos = max 30 (orNum (pos_height pos) 40)"

fun validateLoop :: "nat \<Rightarrow> int \<Rightarrow> element list \<Rightarrow> element list" where
  "validateLoop index currentY [] = []"
| "validateLoop index currentY (e # es) =
     (let pos = (case el_position e of None \<Rightarrow> emptyPosition | Some q \<Rightarrow> q);
          validatedElement = e\<lparr>el_position :=
            mkPos (validX index pos) (validY currentY pos) (validWidth pos) (validHeight pos)\<rparr>
      in validatedElement #
         validateLoop (Suc index) (validY currentY pos + validHeight pos + 10) es)"

definition validateElementPositions :: "element list \<Rightarrow> element list" where
  "validateElementPositions elements = validateLoop 0 120 elements"

text \<open>\<open>element.position || {}\<close>: the position the loop reads.\<close>

definition positionOr :: "element \<Rightarrow> position" where
  "positionOr e = (case el_position e of None \<Rightarrow> emptyPosition | Some q \<Rightarrow> q)"

subsection \<open>\<open>ensureEssentialElements\<close>\<close>

text \<open>
  \<open>el.type === 'header_title' || el.type === 'text' && el.position?.y < 100\<close>:
  \<open>&&\<close> binds tighter than \<open>||\<close>, and a missing \<open>y\<close> compares false.
\<close>

definition isTitle :: "element \<Rightarrow> bool" where
  "isTitle el = (el_type el = ''header_title'' \<or>
     (el_type el = ''text'' \<and>
      (case el_position el of None \<Rightarrow> False
       | Some p \<Rightarrow> (case pos_y p of None \<Rightarrow> False | Some v \<Rightarrow> v < 100))))"

definition titleElement :: "screen \<Rightarrow> element" where
  "titleElement scr =
     (mkEl ''text'' (screenName scr) (mkPos 20 25 400 30)
        [(''fontSize'', ''24px''), (''color'', ''#ECF0F1''), (''fontWeight'', ''bold'')])
     \<lparr>el_purpose := Some ''Screen title and identification'',
      el_userAction := Some ''Visual reference for current screen''\<rparr>"

definition statusElement :: element where
  "statusElement =
     (mkEl ''status_indicator'' ''SYSTEM READY'' (mkPos 600 25 140 30)
        [(''color'', ''#ECF0F1''), (''backgroundColor'', ''#27AE60'')])
     \<lparr>el_purpose := Some ''Overall system status indication'',
      el_userAction := Some ''Monitor system health at a glance''\<rparr>"

definition ensureEssentialElements ::
  "element list \<Rightarrow> screen \<Rightarrow> documentContext \<Rightarrow> element list" where
  "ensureEssentialElements elements scr ctx =
     (let hasTitle = list_ex isTitle elements;
          essential1 = (if \<not> hasTitle then titleElement scr # elements else elements);
          hasStatus = list_ex (\<lambda>el. el_type el = ''status_indicator'') elements
      in if \<not> hasStatus then essential1 @ [statusElement] else essential1)"

subsection \<open>Screen specifications\<close>

text \<open>
  \<open>layout: {header, mainArea, footer}\<close>. A header or footer band may carry its own
  \<open>elements\<close> (read by \<open>createScreenImage\<close>).
\<close>

record band =
  band_title :: "string option"
  band_height :: "int option"
  band_backgroundColor :: "string option"
  band_titleColor :: "string option"
  band_elements :: "element list option"

record mainArea =
  main_backgroundColor :: "string option"
  main_type :: "string option"

record layout =
  lay_header :: "band option"
  lay_mainArea :: "mainArea option"
  lay_footer :: "band option"

record navigation =
  nav_from :: "string list"
  nav_to :: "string list"
  nav_breadcrumb :: "string option"

text \<open>
  The object the model's JSON parses to: every property may be missing.
\<close>

record parsedSpec =
  p_screenTitle :: "string option"
  p_screenPurpose :: "string option"
  p_navigation :: "navigation option"
  p_layout :: "layout option"
  p_colorScheme :: "(string \<times> string) list option"
  p_elements :: "element list option"
  p_functionalDescription :: "string option"
  p_recommendations :: "string list option"

text \<open>
  A screen specification as the generator returns it. The fallback specification has no
  \<open>screenPurpose\<close>, \<open>navigation\<close>, \<open>functionalDescription\<close> or \<open>recommendations\<close>.
\<close>

record screenSpecification =
  screenTitle :: string
  specPurpose :: "string option"
  specNavigation :: "navigation option"
  specLayout :: "layout option"
  colorScheme :: "(string \<times> string) list option"
  elements :: "element list"
  functionalDescription :: "string option"
  recommendations :: "string list option"

text \<open>
  The result of \<open>extractScreenRelevantContent\<close>, a regular-expression scan of the document
  around the screen's name. The generators below read three of its lists; the scan itself
  is not embedded, and its result is an argument of the methods that call it.
\<close>

record screenContent =
  relatedEquipment :: "string list"
  keyOperations :: "string list"
  parameters :: "string list"

subsection \<open>Padding: \<open>generateAdditionalElements\<close> and \<open>generateElementLabel\<close>\<close>

definition digitChar :: "nat \<Rightarrow> char" where
  "digitChar d = digits ! (d mod 10)"

fun showNat :: "nat \<Rightarrow> string" where
  "showNat n = (if n < 10 then [digitChar n] else showNat (n div 10) @ [digitChar (n mod 10)])"

declare showNat.simps [simp del]

definition termOr :: "string list \<Rightarrow> nat \<Rightarrow> (string \<Rightarrow> string) \<Rightarrow> string list \<Rightarrow> string" where
  "termOr availableTerms index f defaults =
     (if length availableTerms > index then f (availableTerms ! index)
      else defaults ! (index mod 4))"

text \<open>
  \<open>generateElementLabel(type, systemType, index)\<close> does not use its \<open>systemType\<close>, and it is
  not handed the caller's document context: it calls \<open>this.getDocumentContext()\<close> itself
  and takes the terms from the keyword profile of the agent's session.
\<close>

definition generateElementLabel :: "string \<Rightarrow> string \<Rightarrow> nat \<Rightarrow> agent \<Rightarrow> string" where
  "generateElementLabel ty sysType index a =
     (let documentContext = fst (getDocumentContext a);
          kw = systemKeywords documentContext;
          availableTerms = components kw @ operations kw @ controls kw
      in if ty = ''control_button'' then
           termOr availableTerms index toUpperCase [''START'', ''STOP'', ''RESET'', ''CONFIRM'']
         else if ty = ''status_indicator'' then
           termOr availableTerms index (\<lambda>term. toUpperCase term @ '' STATUS'')
             [''SYSTEM STATUS'', ''READY'', ''ACTIVE'', ''NORMAL'']
         else if ty = ''data_display'' then
           termOr availableTerms index
             (\<lambda>term. if str_includes (toLowerCase term) ''temperature'' then ''TEMPERATURE''
                else if str_includes (toLowerCase term) ''pressure'' then ''PRESSURE''
                else if str_includes (toLowerCase term) ''flow'' then ''FLOW RATE''
                else if str_includes (toLowerCase term) ''speed'' then ''SPEED''
                else toUpperCase term)
             [''TEMPERATURE'', ''PRESSURE'', ''FLOW RATE'', ''LEVEL'']
         else if ty = ''value_input'' then
           [''SET POINT'', ''TARGET VALUE'', ''THRESHOLD'', ''LIMIT''] ! (index mod 4)
         else if ty = ''gauge'' then
           termOr availableTerms index (\<lambda>term. toUpperCase term @ '' GAUGE'')
             [''PRESSURE GAUGE'', ''TEMPERATURE GAUGE'', ''FLOW GAUGE'', ''LEVEL GAUGE'']
         else if ty = ''progress_bar'' then
           termOr availableTerms index (\<lambda>term. toUpperCase term @ '' PROGRESS'')
             [''OPERATION PROGRESS'', ''TEST PROGRESS'', ''STARTUP PROGRESS'', ''PROCESS PROGRESS'']
         else if ty = ''alarm_indicator'' then
           termOr availableTerms index (\<lambda>term. toUpperCase term @ '' ALARM'')
             [''SYSTEM ALARM'', ''PRESSURE ALARM'', ''TEMPERATURE ALARM'', ''FLOW ALARM'']
         else if ty = ''data_table'' then ''SYSTEM DATA''
         else ''ELEMENT '' @ showNat (index + 1))"

definition elementTypes :: "string list" where
  "elementTypes = [''control_button'', ''status_indicator'', ''data_display'', ''value_input'',
     ''gauge'', ''progress_bar'', ''data_table'', ''alarm_indicator'']"

text \<open>\<open>documentContext.systemKeywords.systemType[0] || d\<close>.\<close>

definition systemTypeOr :: "documentContext \<Rightarrow> string \<Rightarrow> string" where
  "systemTypeOr ctx d =
     (case systemType (systemKeywords ctx) of [] \<Rightarrow> d | t # _ \<Rightarrow> if t = [] then d else t)"

text \<open>
  The element built in iteration \<open>i\<close> of the loop of \<open>generateAdditionalElements\<close>; \<open>ctx\<close> is
  the \<open>documentContext\<close> argument, \<open>a\<close> the agent \<open>generateElementLabel\<close> reads.
\<close>

definition additionalElement :: "documentContext \<Rightarrow> nat \<Rightarrow> agent \<Rightarrow> element" where
  "additionalElement ctx i a =
     (let ty = elementTypes ! (i mod length elementTypes) in
      \<lparr>el_type = ty,
       el_label = Some (generateElementLabel ty (systemTypeOr ctx ''industrial'') i a),
       el_position = mkPos (50 + int (i mod 3) * 250) (200 + int (i div 3) * 100)
         (if ty = ''data_table'' then 300 else if ty = ''gauge'' then 80
          else if ty = ''progress_bar'' then 200 else 120)
         (if ty = ''data_table'' then 80 else if ty = ''gauge'' then 80
          else if ty = ''progress_bar'' then 25 else 40),
       el_style = [(''backgroundColor'',
           if ty = ''control_button'' then ''#3498DB''
           else if ty = ''alarm_indicator'' then ''#E74C3C'' else ''#27AE60''),
         (''color'', ''#FFFFFF''), (''fontSize'', ''14px'')],
       el_purpose = Some (''Additional '' @ replaceFirst (CHR ''_'') '' '' ty @ '' for system operation''),
       el_userAction = Some (''Operator interacts with this '' @ replaceFirst (CHR ''_'') '' '' ty),
       el_headers = None, el_rows = None\<rparr>)"

text \<open>\<open>for (let i = 0; i < count; i++)\<close>; a count that is not positive runs no iteration.\<close>

definition generateAdditionalElements ::
  "screen \<Rightarrow> documentContext \<Rightarrow> int \<Rightarrow> agent \<Rightarrow> element list" where
  "generateAdditionalElements scr ctx count a =
     map (\<lambda>i. additionalElement ctx i a) [0 ..< nat count]"

subsection \<open>\<open>validateAndEnhanceSpec\<close>\<close>

definition mainOrHome :: "string \<Rightarrow> bool" where
  "mainOrHome s = (str_includes (toLowerCase s) ''main'' \<or> str_includes (toLowerCase s) ''home'')"

definition generateNavigationFrom :: "screen \<Rightarrow> documentContext \<Rightarrow> string list" where
  "generateNavigationFrom scr ctx =
     (let name = toLowerCase (screenName scr); allScreens = screenNames ctx in
      if str_includes name ''home'' \<or> str_includes name ''main'' then [''System Startup'']
      else if str_includes name ''settings'' \<or> str_includes name ''config''
        then filter mainOrHome allScreens
      else if str_includes name ''alarm'' then allScreens
      else filter mainOrHome allScreens)"

definition generateNavigationTo :: "screen \<Rightarrow> documentContext \<Rightarrow> string list" where
  "generateNavigationTo scr ctx =
     (let name = toLowerCase (screenName scr); allScreens = screenNames ctx in
      if str_includes name ''home'' \<or> str_includes name ''main''
        then filter (\<lambda>s. s \<noteq> screenName scr) allScreens
      else if str_includes name ''settings'' \<or> str_includes name ''config''
        then filter mainOrHome allScreens
      else filter (\<lambda>s. mainOrHome s \<or> str_includes (toLowerCase s) ''alarm'') allScreens)"

definition getScreenCategory :: "screen \<Rightarrow> string" where
  "getScreenCategory scr = ''Operations''"

definition getDefaultLayout :: "screen \<Rightarrow> layout" where
  "getDefaultLayout scr =
     \<lparr>lay_header = Some \<lparr>band_title = Some (screenName scr), band_height = Some 80,
        band_backgroundColor = Some ''#2C3E50'', band_titleColor = Some ''#ECF0F1'',
        band_elements = None\<rparr>,
      lay_mainArea = Some \<lparr>main_backgroundColor = Some ''#34495E'',
        main_type = Some (orStr (screenType scr) ''control'')\<rparr>,
      lay_footer = Some \<lparr>band_title = None, band_height = Some 60,
        band_backgroundColor = Some ''#2C3E50'', band_titleColor = None,
        band_elements = None\<rparr>\<rparr>"

text \<open>
  The colour schemes of \<open>getDynamicColorScheme\<close>, in the order of the object literal, and
  the scheme it returns when none is chosen.
\<close>

definition colorSchemes :: "(string \<times> (string \<times> string) list) list" where
  "colorSchemes =
    [(''water_treatment'',
      [(''canvasBackground'', ''#F0F8FF''), (''headerBackground'', ''#2C3E50''),
       (''headerText'', ''#ECF0F1''), (''headerSubtext'', ''#BDC3C7''),
       (''screenBackground'', ''#FFFFFF''), (''screenHeaderBg'', ''#3498DB''),
       (''screenHeaderText'', ''#FFFFFF''), (''primary'', ''#3498DB''),
       (''secondary'', ''#95A5A6''), (''accent'', ''#E74C3C''), (''success'', ''#27AE60''),
       (''warning'', ''#F39C12''), (''text'', ''#2C3E50''), (''border'', ''#BDC3C7''),
       (''buttonFill'', ''#ECF0F1''), (''buttonBorder'', ''#3498DB''),
       (''tableBorder'', ''#BDC3C7''), (''tableHeader'', ''#EBF3FD''),
       (''indicator'', ''#27AE60''), (''inputBorder'', ''#3498DB''),
       (''inputFill'', ''#FFFFFF'')]),
     (''power_generation'',
      [(''canvasBackground'', ''#FFF8DC''), (''headerBackground'', ''#8B4513''),
       (''headerText'', ''#FFFFFF''), (''headerSubtext'', ''#F4A460''),
       (''screenBackground'', ''#FFFFFF''), (''screenHeaderBg'', ''#FF8C00''),
       (''screenHeaderText'', ''#FFFFFF''), (''primary'', ''#FF8C00''),
       (''secondary'', ''#CD853F''), (''accent'', ''#B22222''), (''success'', ''#228B22''),
       (''warning'', ''#FFD700''), (''text'', ''#8B4513''), (''border'', ''#DEB887''),
       (''buttonFill'', ''#FFF8DC''), (''buttonBorder'', ''#FF8C00''),
       (''tableBorder'', ''#DEB887''), (''tableHeader'', ''#FFEBCD''),
       (''indicator'', ''#228B22''), (''inputBorder'', ''#FF8C00''),
       (''inputFill'', ''#FFFFFF'')]),
     (''gas'',
      [(''canvasBackground'', ''#F5F5F5''), (''headerBackground'', ''#4A4A4A''),
       (''headerText'', ''#FFFFFF''), (''headerSubtext'', ''#CCCCCC''),
       (''screenBackground'', ''#FFFFFF''), (''screenHeaderBg'', ''#6A5ACD''),
       (''screenHeaderText'', ''#FFFFFF''), (''primary'', ''#6A5ACD''),
       (''secondary'', ''#9370DB''), (''accent'', ''#DC143C''), (''success'', ''#32CD32''),
       (''warning'', ''#FFA500''), (''text'', ''#4A4A4A''), (''border'', ''#D3D3D3''),
       (''buttonFill'', ''#F8F8FF''), (''buttonBorder'', ''#6A5ACD''),
       (''tableBorder'', ''#D3D3D3''), (''tableHeader'', ''#E6E6FA''),
       (''indicator'', ''#32CD32''), (''inputBorder'', ''#6A5ACD''),
       (''inputFill'', ''#FFFFFF'')])]"

definition defaultScheme :: "(string \<times> string) list" where
  "defaultScheme =
     [(''canvasBackground'', ''#F8F9FA''), (''headerBackground'', ''#2C3E50''),
      (''headerText'', ''#ECF0F1''), (''headerSubtext'', ''#BDC3C7''),
      (''screenBackground'', ''#FFFFFF''), (''screenHeaderBg'', ''#34495E''),
      (''screenHeaderText'', ''#FFFFFF''), (''primary'', ''#3498DB''),
      (''secondary'', ''#95A5A6''), (''accent'', ''#E74C3C''), (''success'', ''#27AE60''),
      (''warning'', ''#F39C12''), (''text'', ''#2C3E50''), (''border'', ''#BDC3C7''),
      (''buttonFill'', ''#ECF0F1''), (''buttonBorder'', ''#3498DB''),
      (''tableBorder'', ''#BDC3C7''), (''tableHeader'', ''#EBF3FD''),
      (''indicator'', ''#27AE60''), (''inputBorder'', ''#3498DB''),
      (''inputFill'', ''#FFFFFF'')]"

text \<open>
  \<open>getDynamicColorScheme(documentContext)\<close> reads \<open>documentContext.systemKeywords\<close> only, and
  of it only \<open>systemType\<close>; its argument here is that keyword profile. The first scheme
  whose key contains the lower-cased system type, or is contained in it, is returned;
  then the water scheme for a type that mentions water; then \<open>defaultScheme\<close>.
\<close>

definition getDynamicColorScheme :: "keywordProfile \<Rightarrow> (string \<times> string) list" where
  "getDynamicColorScheme kw =
     (let sysType = (case systemType kw of [] \<Rightarrow> ''industrial''
                     | t # _ \<Rightarrow> if toLowerCase t = [] then ''industrial'' else toLowerCase t)
      in case find (\<lambda>(ty, scheme). str_includes sysType ty \<or> str_includes ty sysType) colorSchemes of
           Some (ty, scheme) \<Rightarrow> scheme
         | None \<Rightarrow>
             if str_includes sysType ''water''
             then (case map_of colorSchemes ''water_treatment'' of Some scheme \<Rightarrow> scheme
                   | None \<Rightarrow> defaultScheme)
             else defaultScheme)"

text \<open>
  The class defines \<open>getDefaultColorScheme\<close> twice; the second definition, the one kept,
  passes \<open>{systemKeywords: {systemType: ['industrial']}}\<close> to \<open>getDynamicColorScheme\<close>.
\<close>

definition getDefaultColorScheme :: "(string \<times> string) list" where
  "getDefaultColorScheme =
     getDynamicColorScheme \<lparr>systemType = [''industrial''], operations = [],
       components = [], controls = []\<rparr>"

definition generateDefaultRecommendations :: "screen \<Rightarrow> documentContext \<Rightarrow> string list" where
  "generateDefaultRecommendations scr ctx =
     (let sysType = systemTypeOr ctx ''system'' in
      [''Add keyboard shortcuts for frequently used '' @ screenName scr @ '' operations'',
       ''Implement contextual help system for '' @ sysType @ '' operations'',
       ''Consider adding trend displays for critical '' @ sysType @ '' parameters'',
       ''Add confirmation dialogs for critical actions'',
       ''Implement operation logging for audit trail''])"

text \<open>
  \<open>validateAndEnhanceSpec\<close>: fill the missing fields, pad a list of fewer than six
  elements up to eight, validate the positions, add the essential elements.
\<close>

definition validateAndEnhanceSpec ::
  "parsedSpec \<Rightarrow> screen \<Rightarrow> documentContext \<Rightarrow> agent \<Rightarrow> screenSpecification" where
  "validateAndEnhanceSpec spec scr ctx a =
     (let els0 = (case p_elements spec of None \<Rightarrow> [] | Some es \<Rightarrow> es);
          els1 = (if length els0 < 6
                  then els0 @ generateAdditionalElements scr ctx (8 - int (length els0)) a
                  else els0);
          els2 = validateElementPositions els1;
          els3 = ensureEssentialElements els2 scr ctx
      in \<lparr>screenTitle = orStr (p_screenTitle spec) (screenName scr),
          specPurpose = Some (orStr (p_screenPurpose spec)
            (''Interface for '' @ toLowerCase (screenName scr) @ '' operations'')),
          specNavigation = Some (case p_navigation spec of Some n \<Rightarrow> n
            | None \<Rightarrow> \<lparr>nav_from = generateNavigationFrom scr ctx,
                nav_to = generateNavigationTo scr ctx,
                nav_breadcrumb = Some (''Home > '' @ getScreenCategory scr @ '' > '' @ screenName scr)\<rparr>),
          specLayout = Some (case p_layout spec of Some l \<Rightarrow> l | None \<Rightarrow> getDefaultLayout scr),
          colorScheme = Some (case p_colorScheme spec of Some c \<Rightarrow> c | None \<Rightarrow> getDefaultColorScheme),
          elements = els3,
          functionalDescription = Some (orStr (p_functionalDescription spec)
            (''This screen provides '' @ toLowerCase (screenName scr)
               @ '' functionality for system operators.'')),
          recommendations = Some (case p_recommendations spec of Some r \<Rightarrow> r
            | None \<Rightarrow> generateDefaultRecommendations scr ctx)\<rparr>)"

subsection \<open>The rule-based fallback: \<open>generateAdaptiveElements\<close> and its generators\<close>

definition tableEl ::
  "string \<Rightarrow> string list \<Rightarrow> nat \<Rightarrow> position option \<Rightarrow> (string \<times> string) list \<Rightarrow> element" where
  "tableEl l hs n p st = (mkEl ''data_table'' l p st)\<lparr>el_headers := Some hs, el_rows := Some n\<rparr>"

text \<open>
  The button loops of the home, control and generic generators: \<open>buttonX\<close> and \<open>buttonY\<close>
  are loop state; every third button starts a new row (\<open>index > 0 && index % 3 === 0\<close>).
\<close>

fun buttonLoop ::
  "(string \<Rightarrow> int \<Rightarrow> int \<Rightarrow> element) \<Rightarrow> int \<Rightarrow> int \<Rightarrow> nat \<Rightarrow> int \<Rightarrow> int \<Rightarrow> string list
     \<Rightarrow> element list" where
  "buttonLoop mk dx dy index buttonX buttonY [] = []"
| "buttonLoop mk dx dy index buttonX buttonY (s # ss) =
     (let newRow = (index > 0 \<and> index mod 3 = 0);
          bY = (if newRow then buttonY + dy else buttonY);
          bX = (if newRow then 50 else buttonX)
      in mk s bX bY # buttonLoop mk dx dy (Suc index) (bX + dx) bY ss)"

definition titleStyle :: "(string \<times> string) list" where
  "titleStyle = [(''fontSize'', ''20px''), (''color'', ''#F39C12''), (''fontWeight'', ''bold'')]"

definition btnStyle :: "string \<Rightarrow> string \<Rightarrow> (string \<times> string) list" where
  "btnStyle bg fs = [(''backgroundColor'', bg), (''color'', ''#FFFFFF''), (''fontSize'', fs)]"

definition tableStyle :: "string \<Rightarrow> (string \<times> string) list" where
  "tableStyle hc = [(''headerColor'', hc), (''rowColor'', ''#34495E''), (''textColor'', ''#ECF0F1'')]"

definition generateDocumentDrivenHomeElements :: "screenContent \<Rightarrow> documentContext \<Rightarrow> element list" where
  "generateDocumentDrivenHomeElements sc ctx =
     (let sysType = systemTypeOr ctx ''System'';
          otherScreens = filter (\<lambda>name. \<not> str_includes (toLowerCase name) ''home''
                                   \<and> \<not> str_includes (toLowerCase name) ''main'') (screenNames ctx)
      in [mkEl ''text'' (toUpperCase (replaceFirst (CHR ''_'') '' '' sysType) @ '' CONTROL SYSTEM'')
            (mkPos 50 120 500 30) titleStyle]
         @ buttonLoop (\<lambda>name bX bY. mkEl ''control_button'' (toUpperCase name)
               (mkPos bX bY 200 60) (btnStyle ''#3498DB'' ''12px''))
             220 80 0 50 180 (take 6 otherScreens)
         @ [tableEl ''System Overview'' [''COMPONENT'', ''STATUS'', ''VALUE''] 6
              (mkPos 50 350 700 150) [(''fontSize'', ''12px''), (''color'', ''#2C3E50'')]])"

definition generateDocumentDrivenControlElements :: "screenContent \<Rightarrow> documentContext \<Rightarrow> element list" where
  "generateDocumentDrivenControlElements sc ctx =
     [mkEl ''text'' ''Manual Control Interface'' (mkPos 50 120 400 30) titleStyle]
     @ buttonLoop (\<lambda>operation bX bY. mkEl ''control_button'' (toUpperCase operation)
           (mkPos bX bY 140 50) (btnStyle ''#27AE60'' ''14px''))
         160 70 0 50 180 (keyOperations sc)
     @ map (\<lambda>(index, equipment). mkEl ''data_display'' (toUpperCase equipment)
              (mkPos (50 + int index * 200) 280 180 40)
              [(''fontSize'', ''14px''), (''color'', ''#2ECC71'')])
         (enumerate 0 (take 3 (relatedEquipment sc)))
     @ [mkEl ''gauge'' ''System Pressure'' (mkPos 600 180 100 100)
          [(''fontSize'', ''12px''), (''color'', ''#3498DB'')]]"

definition generateDocumentDrivenAutoElements :: "screenContent \<Rightarrow> documentContext \<Rightarrow> element list" where
  "generateDocumentDrivenAutoElements sc ctx =
     [mkEl ''text'' ''Automatic Operation Mode'' (mkPos 50 120 400 30) titleStyle,
      mkEl ''control_button'' ''START AUTO'' (mkPos 50 180 180 60) (btnStyle ''#27AE60'' ''16px''),
      mkEl ''control_button'' ''STOP AUTO'' (mkPos 250 180 180 60) (btnStyle ''#E74C3C'' ''16px''),
      mkEl ''progress_bar'' ''Auto Sequence Progress'' (mkPos 50 270 400 30)
        [(''fontSize'', ''12px''), (''color'', ''#3498DB'')]]
     @ map (\<lambda>(index, operation). mkEl ''status_indicator'' (''AUTO '' @ toUpperCase operation)
              (mkPos (50 + int (index mod 2) * 300) (320 + int (index div 2) * 50) 250 30)
              [(''color'', ''#ECF0F1''), (''backgroundColor'', ''#27AE60''), (''fontSize'', ''12px'')])
         (enumerate 0 (take 4 (keyOperations sc)))"

definition generateDocumentDrivenTestElements :: "screenContent \<Rightarrow> documentContext \<Rightarrow> element list" where
  "generateDocumentDrivenTestElements sc ctx =
     [mkEl ''text'' ''System Test & Diagnostics'' (mkPos 50 120 400 30) titleStyle,
      mkEl ''control_button'' ''START TEST'' (mkPos 500 120 120 50) (btnStyle ''#27AE60'' ''14px''),
      mkEl ''control_button'' ''STOP TEST'' (mkPos 640 120 120 50) (btnStyle ''#E74C3C'' ''14px''),
      mkEl ''progress_bar'' ''Test Progress'' (mkPos 50 180 400 25)
        [(''fontSize'', ''12px''), (''color'', ''#3498DB'')],
      tableEl ''Test Results'' [''COMPONENT'', ''TEST'', ''RESULT'', ''STATUS''] 8
        (mkPos 50 230 700 200) [(''fontSize'', ''11px''), (''color'', ''#2C3E50'')]]"

definition generateDocumentDrivenPumpElements :: "screenContent \<Rightarrow> documentContext \<Rightarrow> element list" where
  "generateDocumentDrivenPumpElements sc ctx =
     [mkEl ''text'' ''Pump Control & Monitoring'' (mkPos 50 120 400 30) titleStyle,
      mkEl ''control_button'' ''START PUMP'' (mkPos 50 180 150 60) (btnStyle ''#27AE60'' ''14px''),
      mkEl ''control_button'' ''STOP PUMP'' (mkPos 220 180 150 60) (btnStyle ''#E74C3C'' ''14px''),
      mkEl ''gauge'' ''Pump Pressure'' (mkPos 400 160 100 100)
        [(''fontSize'', ''12px''), (''color'', ''#3498DB'')],
      mkEl ''gauge'' ''Flow Rate'' (mkPos 520 160 100 100)
        [(''fontSize'', ''12px''), (''color'', ''#2ECC71'')],
      mkEl ''status_indicator'' ''PUMP STATUS'' (mkPos 650 180 120 40)
        [(''color'', ''#ECF0F1''), (''backgroundColor'', ''#27AE60''), (''fontSize'', ''14px'')]]"

definition generateDocumentDrivenPurgeElements :: "screenContent \<Rightarrow> documentContext \<Rightarrow> element list" where
  "generateDocumentDrivenPurgeElements sc ctx =
     [mkEl ''text'' ''Purging Sequence Control'' (mkPos 50 120 400 30) titleStyle,
      mkEl ''control_button'' ''START PURGE'' (mkPos 50 180 150 60) (btnStyle ''#F39C12'' ''14px''),
      mkEl ''control_button'' ''STOP PURGE'' (mkPos 220 180 150 60) (btnStyle ''#E74C3C'' ''14px''),
      mkEl ''progress_bar'' ''Purge Progress'' (mkPos 50 270 400 30)
        [(''fontSize'', ''12px''), (''color'', ''#F39C12'')],
      mkEl ''data_display'' ''Purge Time Remaining'' (mkPos 500 180 200 40)
        [(''fontSize'', ''14px''), (''color'', ''#2ECC71'')],
      mkEl ''status_indicator'' ''PURGE STATUS'' (mkPos 500 240 200 40)
        [(''color'', ''#ECF0F1''), (''backgroundColor'', ''#F39C12''), (''fontSize'', ''14px'')]]"

definition generateDocumentDrivenSettingsElements :: "screenContent \<Rightarrow> documentContext \<Rightarrow> element list" where
  "generateDocumentDrivenSettingsElements sc ctx =
     [mkEl ''text'' ''System Configuration'' (mkPos 50 120 400 30) titleStyle,
      mkEl ''control_button'' ''SAVE CONFIG'' (mkPos 50 180 120 50) (btnStyle ''#27AE60'' ''14px''),
      mkEl ''control_button'' ''LOAD CONFIG'' (mkPos 190 180 120 50) (btnStyle ''#3498DB'' ''14px''),
      mkEl ''control_button'' ''RESET CONFIG'' (mkPos 330 180 120 50) (btnStyle ''#E74C3C'' ''14px'')]
     @ map (\<lambda>(index, param). mkEl ''value_input'' (toUpperCase param)
              (mkPos (50 + int (index mod 2) * 300) (250 + int (index div 2) * 60) 250 40)
              [(''fontSize'', ''12px''), (''color'', ''#2C3E50'')])
         (enumerate 0 (take 4 (parameters sc)))"

definition generateDocumentDrivenAlarmElements :: "screenContent \<Rightarrow> documentContext \<Rightarrow> element list" where
  "generateDocumentDrivenAlarmElements sc ctx =
     [mkEl ''text'' ''System Alarms & Faults'' (mkPos 50 120 400 30)
        [(''fontSize'', ''20px''), (''color'', ''#E74C3C''), (''fontWeight'', ''bold'')],
      mkEl ''control_button'' ''ACK ALL'' (mkPos 500 120 100 40) (btnStyle ''#F39C12'' ''14px''),
      mkEl ''control_button'' ''CLEAR ALL'' (mkPos 620 120 100 40) (btnStyle ''#E74C3C'' ''14px''),
      tableEl ''Active Alarms'' [''ALARM'', ''PRIORITY'', ''TIME'', ''STATUS''] 10
        (mkPos 20 180 760 280) (tableStyle ''#E74C3C'')]"

definition generateDocumentDrivenTrackingElements :: "screenContent \<Rightarrow> documentContext \<Rightarrow> element list" where
  "generateDocumentDrivenTrackingElements sc ctx =
     [mkEl ''text'' ''System Performance Tracking'' (mkPos 50 120 400 30) titleStyle,
      tableEl ''Performance Data'' [''PARAMETER'', ''CURRENT'', ''AVERAGE'', ''TREND''] 12
        (mkPos 20 180 760 300) (tableStyle ''#F39C12'')]"

definition generateDocumentDrivenUserElements :: "screenContent \<Rightarrow> documentContext \<Rightarrow> element list" where
  "generateDocumentDrivenUserElements sc ctx =
     [mkEl ''text'' ''User Access Management'' (mkPos 50 120 400 30) titleStyle,
      mkEl ''control_button'' ''LOGIN'' (mkPos 50 180 100 50) (btnStyle ''#27AE60'' ''14px''),
      mkEl ''control_button'' ''LOGOUT'' (mkPos 170 180 100 50) (btnStyle ''#E74C3C'' ''14px''),
      mkEl ''control_button'' ''CHANGE PASSWORD'' (mkPos 290 180 150 50) (btnStyle ''#3498DB'' ''14px''),
      tableEl ''User List'' [''USERNAME'', ''ROLE'', ''STATUS'', ''LAST LOGIN''] 8
        (mkPos 50 250 700 200) (tableStyle ''#3498DB'')]"

definition generateDocumentDrivenGenericElements ::
  "screenContent \<Rightarrow> documentContext \<Rightarrow> screen \<Rightarrow> element list" where
  "generateDocumentDrivenGenericElements sc ctx scr =
     [mkEl ''text'' (screenName scr @ '' Interface'') (mkPos 50 120 400 30)
        [(''fontSize'', ''18px''), (''color'', ''#F39C12'')]]
     @ buttonLoop (\<lambda>operation bX bY. mkEl ''control_button'' (toUpperCase operation)
           (mkPos bX bY 150 50) (btnStyle ''#3498DB'' ''14px''))
         170 70 0 50 180 (take 6 (keyOperations sc))
     @ [tableEl ''System Data'' [''COMPONENT'', ''STATUS'', ''VALUE'', ''CONTROL''] 8
          (mkPos 20 300 760 200) (tableStyle ''#F39C12'')]"

text \<open>
  \<open>generateAdaptiveElements\<close>: a header title, a status indicator, then the elements of
  the first category whose keyword the lower-cased screen name contains. \<open>sc\<close> is the
  value of \<open>this.extractScreenRelevantContent(screen, documentContext)\<close>.
\<close>

definition generateAdaptiveElements ::
  "screen \<Rightarrow> string \<Rightarrow> documentContext \<Rightarrow> screenContent \<Rightarrow> element list" where
  "generateAdaptiveElements scr sysType ctx sc =
     (let name = toLowerCase (screenName scr);
          has = str_includes name
      in [mkEl ''header_title'' (screenName scr) (mkPos 20 25 400 30)
            [(''fontSize'', ''24px''), (''color'', ''#ECF0F1''), (''fontWeight'', ''bold'')],
          mkEl ''status_indicator'' ''SYSTEM READY'' (mkPos 600 25 140 30)
            [(''color'', ''#ECF0F1''), (''backgroundColor'', ''#27AE60'')]]
         @ (if has ''home'' \<or> has ''main'' then generateDocumentDrivenHomeElements sc ctx
            else if has ''manual'' \<or> has ''control'' then generateDocumentDrivenControlElements sc ctx
            else if has ''auto'' \<or> has ''automatic'' then generateDocumentDrivenAutoElements sc ctx
            else if has ''test'' \<or> has ''diagnostic'' then generateDocumentDrivenTestElements sc ctx
            else if has ''pump'' \<or> has ''pumpback'' then generateDocumentDrivenPumpElements sc ctx
            else if has ''purge'' \<or> has ''purging'' then generateDocumentDrivenPurgeElements sc ctx
            else if has ''settings'' \<or> has ''config'' then generateDocumentDrivenSettingsElements sc ctx
            else if has ''alarm'' \<or> has ''alert'' then generateDocumentDrivenAlarmElements sc ctx
            else if has ''time'' \<or> has ''tracking'' then generateDocumentDrivenTrackingElements sc ctx
            else if has ''user'' \<or> has ''management'' then generateDocumentDrivenUserElements sc ctx
            else generateDocumentDrivenGenericElements sc ctx scr))"

definition generateFallbackSpec :: "screen \<Rightarrow> documentContext \<Rightarrow> screenContent \<Rightarrow> screenSpecification" where
  "generateFallbackSpec scr ctx sc =
     (let sysType = systemTypeOr ctx ''generic'' in
      \<lparr>screenTitle = screenName scr,
       specPurpose = None,
       specNavigation = None,
       specLayout = Some
         \<lparr>lay_header = Some \<lparr>band_title = Some (screenName scr), band_height = Some 80,
            band_backgroundColor = Some ''#2C3E50'', band_titleColor = Some ''#ECF0F1'',
            band_elements = None\<rparr>,
          lay_mainArea = Some \<lparr>main_backgroundColor = Some ''#34495E'',
            main_type = Some (orStr (screenType scr) ''control'')\<rparr>,
          lay_footer = Some \<lparr>band_title = None, band_height = Some 60,
            band_backgroundColor = Some ''#2C3E50'', band_titleColor = None,
            band_elements = None\<rparr>\<rparr>,
       colorScheme = Some [(''background'', ''#34495E''), (''primary'', ''#3498DB''),
         (''secondary'', ''#F39C12''), (''accent'', ''#E74C3C''), (''success'', ''#27AE60''),
         (''text'', ''#ECF0F1''), (''header'', ''#2C3E50'')],
       elements = generateAdaptiveElements scr sysType ctx sc,
       functionalDescription = None,
       recommendations = None\<rparr>)"

subsection \<open>\<open>generateAIContextualSpec\<close> and \<open>generateScreenSpecification\<close>\<close>

text \<open>
  What the one call of the language model comes to. \<open>CallFailed\<close>: the request raised.
  \<open>Unparsable\<close>: the inner \<open>try\<close> block raised, that is, the reply is not JSON, or it is JSON
  on which \<open>validateAndEnhanceSpec\<close> raises (an \<open>elements\<close> that is not an array, an entry
  that is \<open>null\<close>). \<open>Parsed p\<close>: the reply parsed to the object \<open>p\<close>. Both \<open>catch\<close> blocks
  return the fallback specification.
\<close>

datatype specReply = CallFailed | Unparsable | Parsed parsedSpec

definition generateAIContextualSpec ::
  "specReply \<Rightarrow> screen \<Rightarrow> documentContext \<Rightarrow> screenContent \<Rightarrow> agent \<Rightarrow> screenSpecification" where
  "generateAIContextualSpec reply scr ctx sc a =
     (case reply of
        Parsed parsed \<Rightarrow> validateAndEnhanceSpec parsed scr ctx a
      | Unparsable \<Rightarrow> generateFallbackSpec scr ctx sc
      | CallFailed \<Rightarrow> generateFallbackSpec scr ctx sc)"

text \<open>
  \<open>generateScreenSpecification(screen)\<close>: report progress, read the document context of the
  session, and hand both to \<open>generateAIContextualSpec\<close>.
\<close>

definition generateScreenSpecification ::
  "specReply \<Rightarrow> screenContent \<Rightarrow> screen \<Rightarrow> agent \<Rightarrow> screenSpecification \<times> agent" where
  "generateScreenSpecification reply sc scr a =
     (let a1 = updateProgress ''screen-generation''
                 (''Generating specification for '' @ screenName scr @ ''...'') a;
          (documentContext, a2) = getDocumentContext a1
      in (generateAIContextualSpec reply scr documentContext sc a2, a2))"

subsection \<open>Predicates on element boxes, and concrete inputs\<close>

text \<open>An element whose position has all four fields, and they satisfy \<open>P x y width height\<close>.\<close>

definition posSat :: "(int \<Rightarrow> int \<Rightarrow> int \<Rightarrow> int \<Rightarrow> bool) \<Rightarrow> element \<Rightarrow> bool" where
  "posSat P e = (case el_position e of None \<Rightarrow> False
     | Some p \<Rightarrow> (case (pos_x p, pos_y p, pos_width p, pos_height p) of
         (Some a, Some b, Some w, Some h) \<Rightarrow> P a b w h
       | _ \<Rightarrow> False))"

text \<open>What \<open>validateElementPositions\<close> establishes.\<close>

definition validated :: "int \<Rightarrow> int \<Rightarrow> int \<Rightarrow> int \<Rightarrow> bool" where
  "validated a b w h = (20 \<le> a \<and> 120 \<le> b \<and> 80 \<le> w \<and> w \<le> 400 \<and> 30 \<le> h)"

text \<open>What holds of every element after \<open>validateAndEnhanceSpec\<close>.\<close>

definition clampedBox :: "int \<Rightarrow> int \<Rightarrow> int \<Rightarrow> int \<Rightarrow> bool" where
  "clampedBox a b w h = (20 \<le> a \<and> 25 \<le> b \<and> 80 \<le> w \<and> w \<le> 400 \<and> 30 \<le> h)"

text \<open>The box lies within the 800 by 600 canvas.\<close>

definition withinCanvas :: "int \<Rightarrow> int \<Rightarrow> int \<Rightarrow> int \<Rightarrow> bool" where
  "withinCanvas a b w h = (0 \<le> a \<and> 0 \<le> b \<and> a + w \<le> 800 \<and> b + h \<le> 600)"

definition hasType :: "string \<Rightarrow> element list \<Rightarrow> bool" where
  "hasType t es = list_ex (\<lambda>e. el_type e = t) es"

text \<open>
  Concrete inputs. \<open>demoAgent\<close> is an agent whose session holds no document and two
  screens, and \<open>demoContext\<close> the document context \<open>getDocumentContext\<close> builds from it;
  \<open>demoContent\<close> is the screen content the defaults give for a name that matches no
  default category.
\<close>

definition mkScreen :: "string \<Rightarrow> screen" where
  "mkScreen name = \<lparr>screenId = None, screenName = name, screenPurpose = None, screenType = None\<rparr>"

definition demoContext :: documentContext where
  "demoContext = \<lparr>documentSample = [],
     systemKeywords = \<lparr>systemType = [''industrial_control''], operations = [],
       components = [], controls = []\<rparr>,
     totalScreens = 2, screenNames = [''Home Screen'', ''Alarm Screen''],
     screenList = [mkScreen ''Home Screen'', mkScreen ''Alarm Screen''], fdsContent = []\<rparr>"

definition demoContent :: screenContent where
  "demoContent = \<lparr>relatedEquipment = [''Generator System Components''],
     keyOperations = [''System Control Operations''], parameters = [''System Parameters'']\<rparr>"

definition demoAgent :: agent where
  "demoAgent = \<lparr>session = \<lparr>sd_fdsContent = None,
       sd_screenList = Some [mkScreen ''Home Screen'', mkScreen ''Alarm Screen'']\<rparr>,
     progress = []\<rparr>"

definition sixButtons :: "int \<Rightarrow> int \<Rightarrow> parsedSpec" where
  "sixButtons a b = \<lparr>p_screenTitle = None, p_screenPurpose = None, p_navigation = None,
     p_layout = None, p_colorScheme = None,
     p_elements = Some (replicate 6 (mkEl ''control_button'' ''GO'' (mkPos a b 120 40) [])),
     p_functionalDescription = None, p_recommendations = None\<rparr>"

subsection \<open>\<open>createScreenImage\<close>: the clamping pass\<close>

text \<open>
  \<open>createScreenImage\<close> first computes the band heights, then rewrites \<open>position.y\<close> of
  every header and footer element that has a position (steps 2 and 3), and only then
  draws. The drawing is not embedded: \<open>createScreenImage_clamp\<close> is the specification as
  it stands when drawing starts. An element with no \<open>y\<close> gets \<open>NaN\<close> from \<open>Math.max\<close>; it
  stays \<open>None\<close> here.
\<close>

definition headerHeight :: "screenSpecification \<Rightarrow> int" where
  "headerHeight spec =
     (case specLayout spec of None \<Rightarrow> 80
      | Some l \<Rightarrow> (case lay_header l of None \<Rightarrow> 80 | Some b \<Rightarrow> orNum (band_height b) 80))"

definition footerHeight :: "screenSpecification \<Rightarrow> int" where
  "footerHeight spec =
     (case specLayout spec of None \<Rightarrow> 60
      | Some l \<Rightarrow> (case lay_footer l of None \<Rightarrow> 60 | Some b \<Rightarrow> orNum (band_height b) 60))"

definition footerY :: "screenSpecification \<Rightarrow> int" where
  "footerY spec = 600 - footerHeight spec"

definition clampHeaderElement :: "int \<Rightarrow> element \<Rightarrow> element" where
  "clampHeaderElement hh el =
     (case el_position el of None \<Rightarrow> el
      | Some p \<Rightarrow> el\<lparr>el_position := Some (p\<lparr>pos_y :=
          map_option (\<lambda>v. min (max v 5) (hh - orNum (pos_height p) 20)) (pos_y p)\<rparr>)\<rparr>)"

definition clampFooterElement :: "int \<Rightarrow> int \<Rightarrow> element \<Rightarrow> element" where
  "clampFooterElement fY fh el =
     (case el_position el of None \<Rightarrow> el
      | Some p \<Rightarrow> el\<lparr>el_position := Some (p\<lparr>pos_y :=
          map_option (\<lambda>v. fY + min (max (v - fY) 0) (fh - orNum (pos_height p) 20)) (pos_y p)\<rparr>)\<rparr>)"

definition createScreenImage_clamp :: "screenSpecification \<Rightarrow> screenSpecification" where
  "createScreenImage_clamp spec =
     spec\<lparr>specLayout := map_option
       (\<lambda>l. l\<lparr>lay_header := map_option
                 (\<lambda>b. b\<lparr>band_elements :=
                    map_option (map (clampHeaderElement (headerHeight spec))) (band_elements b)\<rparr>)
                 (lay_header l),
               lay_footer := map_option
                 (\<lambda>b. b\<lparr>band_elements :=
                    map_option (map (clampFooterElement (footerY spec) (footerHeight spec)))
                      (band_elements b)\<rparr>)
                 (lay_footer l)\<rparr>)
       (specLayout spec)\<rparr>"

text \<open>\<open>layout.header.elements\<close> and \<open>layout.footer.elements\<close>, empty when absent.\<close>

definition bandElements :: "band option \<Rightarrow> element list" where
  "bandElements b = (case b of None \<Rightarrow> []
     | Some r \<Rightarrow> (case band_elements r of None \<Rightarrow> [] | Some es \<Rightarrow> es))"

definition headerElements :: "screenSpecification \<Rightarrow> element list" where
  "headerElements spec = (case specLayout spec of None \<Rightarrow> [] | Some l \<Rightarrow> bandElements (lay_header l))"

definition footerElements :: "screenSpecification \<Rightarrow> element list" where
  "footerElements spec = (case specLayout spec of None \<Rightarrow> [] | Some l \<Rightarrow> bandElements (lay_footer l))"

text \<open>
  What the clamping pass establishes for an element with a position and a \<open>y\<close>, where
  \<open>h\<close> is \<open>height || 20\<close>: the lower edge is inside the band, and the upper edge is too
  when the element is not taller than the band allows.
\<close>

definition headerClamped :: "int \<Rightarrow> element \<Rightarrow> bool" where
  "headerClamped hh el =
     (case el_position el of None \<Rightarrow> True
      | Some p \<Rightarrow> (case pos_y p of None \<Rightarrow> True
          | Some v \<Rightarrow> v + orNum (pos_height p) 20 \<le> hh
                     \<and> (orNum (pos_height p) 20 + 5 \<le> hh \<longrightarrow> 5 \<le> v)))"

definition footerClamped :: "int \<Rightarrow> element \<Rightarrow> bool" where
  "footerClamped fh el =
     (case el_position el of None \<Rightarrow> True
      | Some p \<Rightarrow> (case pos_y p of None \<Rightarrow> True
          | Some v \<Rightarrow> v + orNum (pos_height p) 20 \<le> 600
                     \<and> (orNum (pos_height p) 20 \<le> fh \<longrightarrow> 600 - fh \<le> v)))"

text \<open>A specification with one header element and one footer element, on the default bands.\<close>

definition bandSpec :: "element \<Rightarrow> element \<Rightarrow> screenSpecification" where
  "bandSpec h f =
     \<lparr>screenTitle = ''Pump Status'', specPurpose = None, specNavigation = None,
      specLayout = Some
        \<lparr>lay_header = Some \<lparr>band_title = Some ''Pump Status'', band_height = Some 80,
           band_backgroundColor = None, band_titleColor = None, band_elements = Some [h]\<rparr>,
         lay_mainArea = None,
         lay_footer = Some \<lparr>band_title = None, band_height = Some 60,
           band_backgroundColor = None, band_titleColor = None, band_elements = Some [f]\<rparr>\<rparr>,
      colorScheme = None, elements = [], functionalDescription = None, recommendations = None\<rparr>"

subsection \<open>\<open>isHeading\<close>\<close>

definition endsWith :: "string \<Rightarrow> string \<Rightarrow> bool" where
  "endsWith s suffix = startsWith (rev s) (rev suffix)"

text \<open>\<open>/^\d+\.\s/\<close>: digits, a dot, a whitespace character.\<close>

definition numberedHeading :: "string \<Rightarrow> bool" where
  "numberedHeading s =
     (takeWhile isDigit s \<noteq> [] \<and>
      (case dropWhile isDigit s of
         c1 # c2 # _ \<Rightarrow> c1 = CHR ''.'' \<and> isSpace c2
       | _ \<Rightarrow> False))"

text \<open>\<open>/^\d+\.\d+\s/\<close>: digits, a dot, digits, a whitespace character.\<close>

definition subNumberedHeading :: "string \<Rightarrow> bool" where
  "subNumberedHeading s =
     (takeWhile isDigit s \<noteq> [] \<and>
      (case dropWhile isDigit s of
         c1 # rest \<Rightarrow> c1 = CHR ''.'' \<and> takeWhile isDigit rest \<noteq> [] \<and>
           (case dropWhile isDigit rest of c2 # _ \<Rightarrow> isSpace c2 | [] \<Rightarrow> False)
       | [] \<Rightarrow> False))"

text \<open>\<open>/^[A-Z][A-Z\s]+$/\<close>: a capital, then one or more capitals or whitespace characters.\<close>

definition allCapsHeading :: "string \<Rightarrow> bool" where
  "allCapsHeading s =
     (case s of [] \<Rightarrow> False
      | c # cs \<Rightarrow> isUpper c \<and> cs \<noteq> [] \<and> list_all (\<lambda>d. isUpper d \<or> isSpace d) cs)"

text \<open>
  \<open>/^\w+\s*(Screen|Display|...)/i\<close> on the lower-cased line: some non-empty prefix of the
  leading word characters, then all the whitespace that follows it, then one of the words.
\<close>

definition wordThenNoun :: "string \<Rightarrow> bool" where
  "wordThenNoun ls =
     list_ex (\<lambda>n. list_ex (startsWith (dropWhile isSpace (drop n ls)))
                [''screen'', ''display'', ''interface'', ''panel'', ''view'', ''mode'', ''system'',
                 ''control'', ''management''])
       [1 ..< Suc (length (takeWhile isWord ls))]"

text \<open>
  \<open>isHeading\<close>: the trimmed line is not empty and some pattern of the list matches it. The
  patterns with the flag \<open>i\<close> are matched on the lower-cased line.
\<close>

definition isHeading :: "string \<Rightarrow> bool" where
  "isHeading line =
     (let trimmed = trim line; ls = toLowerCase trimmed in
      if trimmed = [] then False
      else numberedHeading trimmed
         \<or> subNumberedHeading trimmed
         \<or> allCapsHeading trimmed
         \<or> endsWith ls ''screen''
         \<or> endsWith ls ''interface''
         \<or> endsWith ls ''control''
         \<or> endsWith ls ''mode''
         \<or> endsWith ls ''system''
         \<or> list_ex (startsWith ls)
              [''manual'', ''auto'', ''automatic'', ''home'', ''main'', ''test'', ''pumpback'',
               ''purging'', ''settings'', ''alarm'', ''user'', ''configuration'', ''display'',
               ''control'', ''interface'', ''panel'', ''view'', ''time'', ''tracking'',
               ''diagnostic'']
         \<or> wordThenNoun ls
         \<or> list_ex (str_includes ls)
              [''acting'', ''cylinder'', ''extend'', ''retract'', ''feedback'', ''fault'',
               ''timer'', ''interlock''])"

subsection \<open>The section segmenter: \<open>createBasicStructure\<close>\<close>

record docSection =
  heading :: string
  content :: "string list"

text \<open>\<open>s.split(c)\<close> for a one-character separator.\<close>

fun splitOn :: "char \<Rightarrow> string \<Rightarrow> string list" where
  "splitOn c [] = [[]]"
| "splitOn c (x # xs) =
     (if x = c then [] # splitOn c xs
      else (case splitOn c xs of [] \<Rightarrow> [[x]] | l # ls \<Rightarrow> (x # l) # ls))"

text \<open>\<open>content.split('\n').filter(line => line.trim().length > 0)\<close>.\<close>

definition nonEmptyLines :: "string \<Rightarrow> string list" where
  "nonEmptyLines text = filter (\<lambda>line. trim line \<noteq> []) (splitOn (CHR 0x0A) text)"

text \<open>
  The \<open>for\<close> loop of \<open>createBasicStructure\<close> with its two variables, \<open>currentSection\<close> and
  \<open>sections\<close>, and the final push.
\<close>

fun segmentLoop :: "string list \<Rightarrow> docSection option \<Rightarrow> docSection list \<Rightarrow> docSection list" where
  "segmentLoop [] currentSection sections =
     (case currentSection of None \<Rightarrow> sections | Some c \<Rightarrow> sections @ [c])"
| "segmentLoop (line # lines) currentSection sections =
     (if isHeading line then
        segmentLoop lines (Some \<lparr>heading = trim line, content = []\<rparr>)
          (case currentSection of None \<Rightarrow> sections | Some c \<Rightarrow> sections @ [c])
      else (case currentSection of
          Some c \<Rightarrow> segmentLoop lines (Some (c\<lparr>content := content c @ [trim line]\<rparr>)) sections
        | None \<Rightarrow> segmentLoop lines
            (Some \<lparr>heading = ''Document Content'', content = [trim line]\<rparr>) sections))"

definition createBasicStructure :: "string \<Rightarrow> agent \<Rightarrow> docSection list \<times> agent" where
  "createBasicStructure text a =
     (let a1 = updateProgress ''analysis'' ''Creating basic structure for non-DOCX file...'' a
      in (segmentLoop (nonEmptyLines text) None [], a1))"

subsection \<open>The workflow composer\<close>

text \<open>A thrown exception: a \<open>TypeError\<close>, or the error of a failed read, with its message.\<close>

datatype jsError = TypeError string | ReadError string

text \<open>
  A screen transition \<open>{from, to, trigger, description}\<close>; in an object the model sent,
  any of the four may be missing.
\<close>

record transition =
  t_from :: "string option"
  t_to :: "string option"
  t_trigger :: "string option"
  t_description :: "string option"

record navigationFlow =
  mermaidDiagram :: "string option"
  screenTransitions :: "transition list"

text \<open>
  An entry of \<open>navigationFlow.screenTransitions\<close> as the model sent it: a string, an
  object, or something else (a number, a boolean, \<open>null\<close>). An array entry has
  \<open>typeof\<close> "object" and none of the four properties, so it is an object with all four
  missing.
\<close>

datatype rawTransition = TString string | TObject transition | TOther

record rawNavigationFlow =
  rn_mermaidDiagram :: "string option"
  rn_screenTransitions :: "rawTransition list option"

record systemOverview =
  so_systemName :: string
  so_systemType :: string
  so_totalScreens :: nat
  so_primaryFunction :: string
  so_expertReview :: "string option"

text \<open>
  A workflow diagram. The entries of \<open>screenAnalysis\<close> are descriptive text per screen
  (purpose, key elements, functionality, navigation, behaviour and so on), built by text
  generators that no claim here looks into; their type \<open>'e\<close> is left open and the three
  places that build or repair an entry are the parameters \<open>generators\<close>. The constant
  fields \<open>workflowType\<close>, \<open>technicalSpecifications\<close> and \<open>implementationNotes\<close> are left out.
\<close>

record 'e workflowDiagram =
  wf_systemOverview :: "systemOverview option"
  screenAnalysis :: "'e list"
  wf_navigationFlow :: navigationFlow

text \<open>The object the model's JSON parses to, for the workflow.\<close>

record 'e rawWorkflow =
  rw_systemOverview :: "systemOverview option"
  rw_screenAnalysis :: "'e list option"
  rw_navigationFlow :: "rawNavigationFlow option"

record condensedContext =
  cc_systemType :: string
  cc_components :: string
  cc_operations :: string
  cc_screenSummary :: string
  cc_totalScreens :: nat
  cc_documentSample :: string

text \<open>
  None of the text generators sends a request to the language model (the only requests
  of the class are in \<open>generateWorkflowFromScreens\<close>, \<open>analyzeWithGPT4\<close>,
  \<open>analyzeDocumentWithGPT4\<close> and \<open>generateAIContextualSpec\<close>).
  \<open>templateEntry screens cc index screen\<close>: the object literal in the \<open>screens.map\<close> of
  \<open>generateTemplateBasedWorkflow\<close>. \<open>sanitizeEntry screens cc entry\<close>: the body of the
  \<open>forEach\<close> of \<open>enhanceWithTemplateData\<close>. \<open>scratchEntry cc screen\<close>: the object literal
  in the \<open>screens.map\<close> of \<open>enhanceWithTemplateData\<close>.
\<close>

record 'e generators =
  templateEntry :: "screen list \<Rightarrow> condensedContext \<Rightarrow> nat \<Rightarrow> screen \<Rightarrow> 'e"
  sanitizeEntry :: "screen list \<Rightarrow> condensedContext \<Rightarrow> 'e \<Rightarrow> 'e"
  scratchEntry :: "condensedContext \<Rightarrow> screen \<Rightarrow> 'e"

text \<open>\<open>xs.join(sep)\<close>.\<close>

fun joinWith :: "string \<Rightarrow> string list \<Rightarrow> string" where
  "joinWith sep [] = []"
| "joinWith sep [x] = x"
| "joinWith sep (x # y # ys) = x @ sep @ joinWith sep (y # ys)"

definition createCondensedContext :: "documentContext \<Rightarrow> screen list \<Rightarrow> condensedContext" where
  "createCondensedContext ctx screens =
     \<lparr>cc_systemType = systemTypeOr ctx ''industrial_control'',
      cc_components = joinWith '', '' (take 5 (components (systemKeywords ctx))),
      cc_operations = joinWith '', '' (take 5 (operations (systemKeywords ctx))),
      cc_screenSummary = joinWith '', '' (map screenName screens),
      cc_totalScreens = length screens,
      cc_documentSample = take 300 (documentSample ctx)\<rparr>"

text \<open>
  \<open>generatePrimaryFunction\<close> searches \<open>condensedContext.documentContent\<close>, a property
  \<open>createCondensedContext\<close> never sets, so the search runs on the empty string and finds
  nothing; what remains is the last line.
\<close>

definition generatePrimaryFunction :: "condensedContext \<Rightarrow> string" where
  "generatePrimaryFunction cc =
     replaceFirst (CHR ''_'') '' '' (toLowerCase (cc_systemType cc)) @ '' control and monitoring system''"

text \<open>
  \<open>generateConciseNavigationFlow\<close>: transitions from the home screen (the first screen
  whose name contains "home", else the first screen) to at most six other screens. On an
  empty list \<open>homeScreen\<close> is \<open>undefined\<close> and reading its name raises a \<open>TypeError\<close>.
\<close>

definition generateConciseNavigationFlow :: "screen list \<Rightarrow> jsError + navigationFlow" where
  "generateConciseNavigationFlow screens =
     (case (case find (\<lambda>s. str_includes (toLowerCase (screenName s)) ''home'') screens of
              Some h \<Rightarrow> Some h
            | None \<Rightarrow> (case screens of [] \<Rightarrow> None | s # _ \<Rightarrow> Some s)) of
        None \<Rightarrow> Inl (TypeError ''Cannot read properties of undefined (reading screenName)'')
      | Some homeScreen \<Rightarrow>
          (let otherScreens = filter (\<lambda>s. screenName s \<noteq> screenName homeScreen) screens;
               mermaidLines =
                 [''graph TD'',
                  ''    A['' @ screenName homeScreen @ ''] --> B[''
                    @ orStr (case otherScreens of [] \<Rightarrow> None | s # _ \<Rightarrow> Some (screenName s)) ''System''
                    @ '']'']
                 @ map (\<lambda>i. ''    A --> '' @ [upperLetters ! (i + 1)] @ ''[''
                              @ screenName (otherScreens ! i) @ '']'')
                     [1 ..< min (length otherScreens) 6]
           in Inr \<lparr>mermaidDiagram = Some (joinWith ''; '' mermaidLines),
                   screenTransitions = map (\<lambda>s.
                     \<lparr>t_from = Some (screenName homeScreen), t_to = Some (screenName s),
                      t_trigger = Some ''User selection'',
                      t_description = Some (''Navigate from '' @ screenName homeScreen @ '' to ''
                        @ screenName s)\<rparr>) (take 6 otherScreens)\<rparr>))"

text \<open>
  \<open>generateTemplateBasedWorkflow\<close>: a progress message, the workflow, a progress message.
  When building the workflow raises, the second message is not sent.
\<close>

definition generateTemplateBasedWorkflow ::
  "'e generators \<Rightarrow> screen list \<Rightarrow> condensedContext \<Rightarrow> agent
     \<Rightarrow> (jsError + 'e workflowDiagram) \<times> agent" where
  "generateTemplateBasedWorkflow gens screens cc a =
     (let a1 = updateProgress ''workflow''
                 ''Using efficient template-based generation with expert analysis...'' a
      in case generateConciseNavigationFlow screens of
           Inl e \<Rightarrow> (Inl e, a1)
         | Inr nav \<Rightarrow>
             (Inr \<lparr>wf_systemOverview = Some
                     \<lparr>so_systemName = cc_systemType cc @ '' Control System'',
                      so_systemType = cc_systemType cc,
                      so_totalScreens = length screens,
                      so_primaryFunction = generatePrimaryFunction cc,
                      so_expertReview = Some (''Based on 25+ years of PLC/HMI experience, this ''
                        @ cc_systemType cc @ '' system demonstrates proper architectural principles with logical screen separation and operator-centric design patterns.'')\<rparr>,
                   screenAnalysis = map (\<lambda>(index, s). templateEntry gens screens cc index s)
                     (enumerate 0 screens),
                   wf_navigationFlow = nav\<rparr>,
              updateProgress ''workflow'' ''Expert-level template analysis completed'' a1))"

text \<open>
  The match of \<open>/^(.*?)\s*->\s*(.*?)$/\<close>, as the pair of the two groups, trimmed. The dot
  does not match a line terminator. The first arrow \<open>->\<close> is taken for which the text before
  it, less its trailing whitespace, and the text after it, less its leading whitespace,
  hold no line terminator. \<open>pre\<close> is the text before the current position, reversed.
\<close>

definition isLineTerminator :: "char \<Rightarrow> bool" where
  "isLineTerminator c = (c = CHR 0x0A \<or> c = CHR 0x0D)"

fun parseArrowFrom :: "string \<Rightarrow> string \<Rightarrow> (string \<times> string) option" where
  "parseArrowFrom pre [] = None"
| "parseArrowFrom pre (c # cs) =
     (if startsWith (c # cs) ''->''
         \<and> \<not> list_ex isLineTerminator (dropWhile isSpace pre)
         \<and> \<not> list_ex isLineTerminator (dropWhile isSpace (drop 2 (c # cs)))
      then Some (trim (rev pre), trim (drop 2 (c # cs)))
      else parseArrowFrom (c # pre) cs)"

definition parseArrow :: "string \<Rightarrow> (string \<times> string) option" where
  "parseArrow s = parseArrowFrom [] s"

text \<open>A value in a template literal: \<open>undefined\<close> prints as "undefined".\<close>

definition strOf :: "string option \<Rightarrow> string" where
  "strOf v = (case v of None \<Rightarrow> ''undefined'' | Some s \<Rightarrow> s)"

text \<open>
  The function mapped over \<open>screenTransitions\<close> in \<open>enhanceWithTemplateData\<close>; \<open>None\<close> is
  the \<open>null\<close> that \<open>filter(Boolean)\<close> then drops.
\<close>

definition sanitizeTransition :: "rawTransition \<Rightarrow> transition option" where
  "sanitizeTransition tr =
     (case tr of
        TString s \<Rightarrow>
          (case parseArrow s of
             Some (f, t) \<Rightarrow> Some \<lparr>t_from = Some f, t_to = Some t,
               t_trigger = Some ''User selection'',
               t_description = Some (''Navigate from '' @ f @ '' to '' @ t)\<rparr>
           | None \<Rightarrow> None)
      | TObject obj \<Rightarrow>
          Some (obj\<lparr>t_trigger := Some (orStr (t_trigger obj) ''User selection''),
                    t_description := Some (orStr (t_description obj)
                      (''Navigate from '' @ strOf (t_from obj) @ '' to '' @ strOf (t_to obj)))\<rparr>)
      | TOther \<Rightarrow> None)"

text \<open>
  \<open>enhanceWithTemplateData\<close>, the reconciliation pass. The transitions the model sent are
  normalised one by one; the navigation flow is generated from the screens only when the
  model sent none.
\<close>

definition enhanceWithTemplateData ::
  "'e generators \<Rightarrow> 'e rawWorkflow \<Rightarrow> screen list \<Rightarrow> condensedContext
     \<Rightarrow> jsError + 'e workflowDiagram" where
  "enhanceWithTemplateData gens workflowData screens cc =
     (let overview = (case rw_systemOverview workflowData of
              Some ov \<Rightarrow> ov
            | None \<Rightarrow> \<lparr>so_systemName = cc_systemType cc @ '' Control System'',
                so_systemType = cc_systemType cc, so_totalScreens = length screens,
                so_primaryFunction = generatePrimaryFunction cc, so_expertReview = None\<rparr>);
          analysis = (case rw_screenAnalysis workflowData of
              Some entries \<Rightarrow> map (sanitizeEntry gens screens cc) entries
            | None \<Rightarrow> map (scratchEntry gens cc) screens);
          sent = (case rw_navigationFlow workflowData of
              None \<Rightarrow> None
            | Some nf \<Rightarrow> (case rn_screenTransitions nf of
                  None \<Rightarrow> None
                | Some ts \<Rightarrow> Some \<lparr>mermaidDiagram = rn_mermaidDiagram nf,
                    screenTransitions = List.map_filter sanitizeTransition ts\<rparr>))
      in case (case sent of Some nav \<Rightarrow> Inr nav | None \<Rightarrow> generateConciseNavigationFlow screens) of
           Inl e \<Rightarrow> Inl e
         | Inr nav \<Rightarrow> Inr \<lparr>wf_systemOverview = Some overview, screenAnalysis = analysis,
                          wf_navigationFlow = nav\<rparr>)"

text \<open>
  What the one request to the language model comes to. \<open>WfCallFailed\<close>: the request
  raised. \<open>WfNoJson\<close>: the reply holds no JSON object, or it does not parse.
  \<open>WfParsed w\<close>: it parsed to \<open>w\<close>.
\<close>

datatype 'e workflowReply = WfCallFailed | WfNoJson | WfParsed "'e rawWorkflow"

text \<open>
  \<open>generateWorkflowFromScreens\<close>. \<open>modelCalls\<close> counts the requests sent to the language
  model. With at most three screens the template path is taken and no request is sent.
  Otherwise one request is sent; on any failure, also when \<open>enhanceWithTemplateData\<close>
  raises, the \<open>catch\<close> blocks return the template workflow.
\<close>

definition generateWorkflowFromScreens ::
  "'e generators \<Rightarrow> 'e workflowReply \<Rightarrow> screen list \<Rightarrow> agent \<Rightarrow> nat
     \<Rightarrow> ((jsError + 'e workflowDiagram) \<times> agent) \<times> nat" where
  "generateWorkflowFromScreens gens reply screens a modelCalls =
     (let (documentContext, a1) = getDocumentContext a;
          cc = createCondensedContext documentContext screens
      in if length screens \<le> 3 then (generateTemplateBasedWorkflow gens screens cc a1, modelCalls)
         else (case reply of
             WfCallFailed \<Rightarrow> (generateTemplateBasedWorkflow gens screens cc a1, modelCalls + 1)
           | WfNoJson \<Rightarrow> (generateTemplateBasedWorkflow gens screens cc a1, modelCalls + 1)
           | WfParsed workflowData \<Rightarrow>
               (case enhanceWithTemplateData gens workflowData screens cc of
                  Inr w \<Rightarrow> ((Inr w, a1), modelCalls + 1)
                | Inl e \<Rightarrow> (generateTemplateBasedWorkflow gens screens cc a1, modelCalls + 1))))"

text \<open>Concrete inputs: entries that are just the screen's name, and four screens.\<close>

definition nameGenerators :: "string generators" where
  "nameGenerators = \<lparr>templateEntry = (\<lambda>screens cc index s. screenName s),
     sanitizeEntry = (\<lambda>screens cc e. e), scratchEntry = (\<lambda>cc s. screenName s)\<rparr>"

definition fourScreens :: "screen list" where
  "fourScreens = [mkScreen ''Home Screen'', mkScreen ''Settings Screen'',
     mkScreen ''Alarm Screen'', mkScreen ''Pump Screen'']"

definition danglingWorkflow :: "string rawWorkflow" where
  "danglingWorkflow = \<lparr>rw_systemOverview = None, rw_screenAnalysis = None,
     rw_navigationFlow = Some \<lparr>rn_mermaidDiagram = None, rn_screenTransitions = Some
       [TObject \<lparr>t_from = Some ''Ghost Screen'', t_to = Some ''Home Screen'',
                  t_trigger = None, t_description = None\<rparr>,
        TString ''Home Screen -> Nowhere'',
        TString ''no arrow here'',
        TOther]\<rparr>\<rparr>"

definition demoCondensed :: condensedContext where
  "demoCondensed = createCondensedContext demoContext fourScreens"

text \<open>The transitions the model sent, if it sent any.\<close>

definition sentTransitions :: "'e rawWorkflow \<Rightarrow> rawTransition list option" where
  "sentTransitions workflowData =
     (case rw_navigationFlow workflowData of None \<Rightarrow> None | Some nf \<Rightarrow> rn_screenTransitions nf)"

text \<open>Both ends of the transition are names of screens of the list.\<close>

definition refersTo :: "screen list \<Rightarrow> transition \<Rightarrow> bool" where
  "refersTo screens t =
     ((case t_from t of None \<Rightarrow> False | Some f \<Rightarrow> f \<in> set (map screenName screens))
      \<and> (case t_to t of None \<Rightarrow> False | Some f \<Rightarrow> f \<in> set (map screenName screens)))"

definition complete :: "transition \<Rightarrow> bool" where
  "complete t = (t_trigger t \<noteq> None \<and> t_trigger t \<noteq> Some [] \<and> t_description t \<noteq> None)"

subsection \<open>The document reader: \<open>readDocument\<close>\<close>

text \<open>
  The world outside: \<open>fs.readFileSync(path, 'utf8')\<close> and mammoth's
  \<open>extractRawText({path})\<close> (its \<open>value\<close>), each giving the text or raising.
\<close>

record fileSystem =
  readFileSync :: "string \<Rightarrow> jsError + string"
  extractRawText :: "string \<Rightarrow> jsError + string"

definition errorMessage :: "jsError \<Rightarrow> string" where
  "errorMessage e = (case e of TypeError m \<Rightarrow> m | ReadError m \<Rightarrow> m)"

text \<open>
  Node's \<open>path.extname\<close> for POSIX paths: the part of the last path segment (trailing
  slashes aside) from its last dot on; empty when the segment has no dot, when its only
  dot is its first character, or when the segment is \<open>..\<close>.
\<close>

definition extname :: "string \<Rightarrow> string" where
  "extname path =
     (let base = rev (takeWhile (\<lambda>c. c \<noteq> CHR ''/'') (dropWhile (\<lambda>c. c = CHR ''/'') (rev path)));
          afterDot = takeWhile (\<lambda>c. c \<noteq> CHR ''.'') (rev base)
      in if CHR ''.'' \<notin> set base then []
         else if Suc (length afterDot) = length base \<or> base = ''..'' then []
         else CHR ''.'' # rev afterDot)"

text \<open>
  \<open>readDocument\<close>. Only the \<open>.docx\<close> branch has \<open>try\<close> blocks: a failed extraction falls back
  to the raw read, and a failed raw read to the placeholder. The \<open>.txt\<close> branch and the
  branch of every other extension return the raw read as it is, so its exception leaves
  \<open>readDocument\<close>.
\<close>

definition readDocument :: "fileSystem \<Rightarrow> string \<Rightarrow> agent \<Rightarrow> (jsError + string) \<times> agent" where
  "readDocument fs filePath a =
     (let a1 = updateProgress ''analysis'' (''Reading document: '' @ filePath) a;
          ext = toLowerCase (extname filePath)
      in if ext = ''.txt'' then (readFileSync fs filePath, a1)
         else if ext = ''.docx'' then
           (case extractRawText fs filePath of
              Inr v \<Rightarrow>
                (Inr v, updateProgress ''analysis''
                   (''Mammoth extraction: '' @ showNat (length v) @ '' characters'') a1)
            | Inl mammothError \<Rightarrow>
                (let a2 = updateProgress ''analysis''
                       (''Mammoth extraction failed: '' @ errorMessage mammothError) a1
                 in case readFileSync fs filePath of
                      Inr c \<Rightarrow>
                        (Inr c, updateProgress ''analysis''
                           (''Fallback text read: '' @ showNat (length c) @ '' characters'') a2)
                    | Inl fallbackError \<Rightarrow>
                        (Inr (''[Document could not be read: '' @ errorMessage fallbackError @ '']''),
                         updateProgress ''analysis'' ''All document reading attempts failed'' a2)))
         else (readFileSync fs filePath, a1))"

text \<open>A file system with no file at all, and a broken mammoth.\<close>

definition emptyFs :: fileSystem where
  "emptyFs = \<lparr>readFileSync = (\<lambda>p. Inl (ReadError (''ENOENT: no such file or directory, open '' @ p))),
     extractRawText = (\<lambda>p. Inl (ReadError ''Could not find file in options''))\<rparr>"

section \<open>Properties\<close>

subsection \<open>Position validation is a frame-preserving map\<close>

lemma validateLoop_length: "length (validateLoop i cy es) = length es"
  by (induction es arbitrary: i cy) (simp_all add: Let_def)

lemma validateLoop_frame:
  "map (\<lambda>e. e\<lparr>el_position := None\<rparr>) (validateLoop i cy es) = map (\<lambda>e. e\<lparr>el_position := None\<rparr>) es"
  by (induction es arbitrary: i cy) (simp_all add: Let_def)

lemma validateLoop_bounds: "list_all (posSat validated) (validateLoop i cy es)"
  by (induction es arbitrary: i cy)
     (simp_all add: Let_def posSat_def validated_def mkPos_def validX_def validY_def
        validWidth_def validHeight_def)

lemma validateLoop_sizes:
  "list_all2 (\<lambda>e v. posSat (\<lambda>a b w h. w = min 400 (max 80 (orNum (pos_width (positionOr e)) 150))
                                   \<and> h = max 30 (orNum (pos_height (positionOr e)) 40)) v)
     es (validateLoop i cy es)"
  by (induction es arbitrary: i cy)
     (simp_all add: Let_def posSat_def mkPos_def positionOr_def validWidth_def validHeight_def)

text \<open>
  C9. \<open>validateElementPositions\<close> returns a list of the same length in the same order;
  every output element equals its input element on all fields but \<open>position\<close> (the two
  lists agree once the positions are erased), and every output position has its width
  in [80, 400] and its height at least 30. The output width is the input width, or 150
  when it is absent or 0, clamped to [80, 400]; the output height is the input height, or
  40 when it is absent or 0, raised to at least 30.
\<close>

theorem validateElementPositions_frame:
  "length (validateElementPositions es) = length es
   \<and> map (\<lambda>e. e\<lparr>el_position := None\<rparr>) (validateElementPositions es)
       = map (\<lambda>e. e\<lparr>el_position := None\<rparr>) es
   \<and> list_all (posSat (\<lambda>a b w h. 80 \<le> w \<and> w \<le> 400 \<and> 30 \<le> h)) (validateElementPositions es)
   \<and> list_all2 (\<lambda>e v. posSat (\<lambda>a b w h. w = min 400 (max 80 (orNum (pos_width (positionOr e)) 150))
                                     \<and> h = max 30 (orNum (pos_height (positionOr e)) 40)) v)
       es (validateElementPositions es)"
proof -
  have "list_all (posSat validated) (validateElementPositions es)"
    by (simp add: validateElementPositions_def validateLoop_bounds)
  then have "list_all (posSat (\<lambda>a b w h. 80 \<le> w \<and> w \<le> 400 \<and> 30 \<le> h)) (validateElementPositions es)"
    by (rule list.pred_mono_strong)
       (auto simp: posSat_def validated_def split: option.splits)
  then show ?thesis
    by (simp add: validateElementPositions_def validateLoop_length validateLoop_frame
        validateLoop_sizes)
qed

text \<open>
  The theorem at a list of two elements: a gauge far outside the canvas and a button with
  no position. Both keep their type and label; the gauge's width 1000 becomes 400 and its
  height 5 becomes 30; the button gets the default 150 by 40 below the gauge.
\<close>

theorem validateElementPositions_frame_witness:
  "validateElementPositions
     [mkEl ''gauge'' ''G'' (mkPos 900 0 1000 5) [], mkEl ''control_button'' ''B'' None []]
   = [mkEl ''gauge'' ''G'' (mkPos 900 120 400 30) [],
      mkEl ''control_button'' ''B'' (mkPos 250 160 150 40) []]
   \<and> length (validateElementPositions
     [mkEl ''gauge'' ''G'' (mkPos 900 0 1000 5) [], mkEl ''control_button'' ''B'' None []]) = 2"
  using validateElementPositions_frame
    [of "[mkEl ''gauge'' ''G'' (mkPos 900 0 1000 5) [], mkEl ''control_button'' ''B'' None []]"]
  by (simp add: validateElementPositions_def Let_def mkEl_def mkPos_def validX_def validY_def
      validWidth_def validHeight_def orNum_def emptyPosition_def)

subsection \<open>The essential elements\<close>

text \<open>
  C10. \<open>ensureEssentialElements\<close> returns the input list unchanged as a contiguous block,
  with nothing or the one title element (of type \<open>text\<close>) before it and nothing or the one
  status element (of type \<open>status_indicator\<close>) after it; the result always holds an
  element of type \<open>status_indicator\<close>.
\<close>

theorem ensureEssentialElements_frame:
  "\<exists>pre post. ensureEssentialElements es scr ctx = pre @ es @ post
     \<and> (pre = [] \<or> pre = [titleElement scr]) \<and> (post = [] \<or> post = [statusElement])
     \<and> el_type (titleElement scr) = ''text'' \<and> el_type statusElement = ''status_indicator''
     \<and> hasType ''status_indicator'' (ensureEssentialElements es scr ctx)"
proof -
  let ?pre = "if list_ex isTitle es then [] else [titleElement scr]"
  let ?post = "if list_ex (\<lambda>el. el_type el = ''status_indicator'') es then [] else [statusElement]"
  have eq: "ensureEssentialElements es scr ctx = ?pre @ es @ ?post"
    by (simp add: ensureEssentialElements_def Let_def)
  have ty: "el_type (titleElement scr) = ''text''" "el_type statusElement = ''status_indicator''"
    by (simp_all add: titleElement_def statusElement_def mkEl_def)
  have "list_ex (\<lambda>e. el_type e = ''status_indicator'') (?pre @ es @ ?post)"
    using ty(2) by (simp add: list_ex_iff)
  then show ?thesis
    unfolding hasType_def using eq ty by (intro exI [of _ ?pre] exI [of _ ?post]) simp
qed

text \<open>
  The theorem at a one-button list: the title goes in front, the status indicator behind.
\<close>

theorem ensureEssentialElements_frame_witness:
  "ensureEssentialElements [mkEl ''control_button'' ''GO'' (mkPos 50 200 120 40) []]
     (mkScreen ''Pump Status'') demoContext
   = [titleElement (mkScreen ''Pump Status''),
      mkEl ''control_button'' ''GO'' (mkPos 50 200 120 40) [], statusElement]
   \<and> hasType ''status_indicator''
       (ensureEssentialElements [mkEl ''control_button'' ''GO'' (mkPos 50 200 120 40) []]
          (mkScreen ''Pump Status'') demoContext)"
  using ensureEssentialElements_frame
    [of "[mkEl ''control_button'' ''GO'' (mkPos 50 200 120 40) []]" "mkScreen ''Pump Status''" demoContext]
  by (auto simp: ensureEssentialElements_def isTitle_def mkEl_def Let_def)

subsection \<open>The default colour scheme\<close>

text \<open>
  No key of \<open>colorSchemes\<close> contains \<open>industrial\<close> or is contained in it, so the default
  colour scheme is \<open>defaultScheme\<close>.
\<close>

lemma getDefaultColorScheme_value: "getDefaultColorScheme = defaultScheme"
  by code_simp

subsection \<open>The validated specification\<close>

lemma ensure_length: "length es \<le> length (ensureEssentialElements es scr ctx)"
  by (simp add: ensureEssentialElements_def Let_def)

lemma ensure_box:
  assumes "list_all (posSat validated) es"
  shows "list_all (posSat clampedBox) (ensureEssentialElements es scr ctx)"
proof -
  have "list_all (posSat clampedBox) es"
    using assms
    by (rule list.pred_mono_strong)
       (auto simp: posSat_def validated_def clampedBox_def split: option.splits)
  moreover have "posSat clampedBox (titleElement scr)" "posSat clampedBox statusElement"
    by (simp_all add: posSat_def titleElement_def statusElement_def mkEl_def mkPos_def clampedBox_def)
  ultimately show ?thesis
    by (simp add: ensureEssentialElements_def Let_def)
qed

lemma padded_length:
  "6 \<le> length (if length es < 6
                 then es @ generateAdditionalElements scr ctx (8 - int (length es)) a else es)"
  by (auto simp: generateAdditionalElements_def)

text \<open>
  What \<open>validateAndEnhanceSpec\<close> does establish, on the path where the reply of the model
  parsed: at least six elements, each with \<open>x \<ge> 20\<close>, \<open>y \<ge> 25\<close>, a width in [80, 400] and
  a height of at least 30. Nothing bounds \<open>x + width\<close> or \<open>y + height\<close> from above.
\<close>

lemma validated_spec:
  "6 \<le> length (elements (validateAndEnhanceSpec p scr ctx a))
   \<and> list_all (posSat clampedBox) (elements (validateAndEnhanceSpec p scr ctx a))"
proof -
  let ?els0 = "case p_elements p of None \<Rightarrow> [] | Some es \<Rightarrow> es"
  let ?els1 = "if length ?els0 < 6
               then ?els0 @ generateAdditionalElements scr ctx (8 - int (length ?els0)) a else ?els0"
  let ?els2 = "validateElementPositions ?els1"
  have e: "elements (validateAndEnhanceSpec p scr ctx a) = ensureEssentialElements ?els2 scr ctx"
    by (simp add: validateAndEnhanceSpec_def Let_def)
  have "6 \<le> length ?els2"
    using padded_length [of ?els0 scr ctx a]
    by (simp only: validateElementPositions_def validateLoop_length)
  then have l: "6 \<le> length (ensureEssentialElements ?els2 scr ctx)"
    using ensure_length [of ?els2 scr ctx] by linarith
  have "list_all (posSat validated) ?els2"
    by (simp only: validateElementPositions_def validateLoop_bounds)
  then have "list_all (posSat clampedBox) (ensureEssentialElements ?els2 scr ctx)"
    by (rule ensure_box)
  with l e show ?thesis by simp
qed

subsection \<open>Element count and canvas bounds\<close>

text \<open>
  C1. \<open>generateScreenSpecification\<close> at two inputs. When the call of the language model
  fails, the specification of the screen "Time Tracking" is the fallback's and has four
  elements: the padding to six is part of \<open>validateAndEnhanceSpec\<close>, which the fallback
  path does not run. When the reply of the model has six buttons at (900, 700), the
  specification keeps all six at (900, 700), 120 wide and 40 high:
  \<open>validateElementPositions\<close> applies lower bounds to \<open>x\<close> and \<open>y\<close> and no upper bound, so
  the buttons lie outside the 800 by 600 canvas.
\<close>

theorem generateScreenSpecification_counterexample:
  "length (elements (fst (generateScreenSpecification CallFailed demoContent
       (mkScreen ''Time Tracking'') demoAgent))) = 4
   \<and> map el_position (take 6 (drop 1 (elements (fst (generateScreenSpecification
       (Parsed (sixButtons 900 700)) demoContent (mkScreen ''Pump Status'') demoAgent)))))
     = replicate 6 (mkPos 900 700 120 40)
   \<and> \<not> list_all (posSat withinCanvas) (elements (fst (generateScreenSpecification
       (Parsed (sixButtons 900 700)) demoContent (mkScreen ''Pump Status'') demoAgent)))"
  by code_simp

subsection \<open>Alarm indicators\<close>

lemma additional_type: "el_type (additionalElement ctx i a) = elementTypes ! (i mod 8)"
  by (simp add: additionalElement_def elementTypes_def Let_def)

lemma elementTypes_alarm: "j < 8 \<Longrightarrow> (elementTypes ! j = ''alarm_indicator'') = (j = 7)"
proof -
  assume "j < 8"
  then consider "j = 0" | "j = 1" | "j = 2" | "j = 3" | "j = 4" | "j = 5" | "j = 6" | "j = 7"
    by linarith
  then show ?thesis
    by cases (simp_all add: elementTypes_def)
qed

lemma additional_alarm:
  "n \<le> 8 \<Longrightarrow> hasType ''alarm_indicator'' (generateAdditionalElements scr ctx n a) = (n = 8)"
proof -
  assume n: "n \<le> 8"
  have "hasType ''alarm_indicator'' (generateAdditionalElements scr ctx n a)
        = (\<exists>i < nat n. elementTypes ! (i mod 8) = ''alarm_indicator'')"
    by (auto simp: hasType_def generateAdditionalElements_def list_ex_iff additional_type)
  also have "\<dots> = (\<exists>i < nat n. i = 7)"
    using n by (intro ex_cong1 conj_cong refl) (simp add: elementTypes_alarm)
  also have "\<dots> = (n = 8)"
    using n by auto
  finally show ?thesis .
qed

lemma validate_types: "map el_type (validateElementPositions es) = map el_type es"
proof -
  have "map el_type (map (\<lambda>e. e\<lparr>el_position := None\<rparr>) (validateElementPositions es))
        = map el_type (map (\<lambda>e. e\<lparr>el_position := None\<rparr>) es)"
    by (simp only: validateElementPositions_def validateLoop_frame)
  then show ?thesis by (simp add: comp_def)
qed

lemma hasType_map: "hasType t es = (t \<in> set (map el_type es))"
  by (auto simp: hasType_def list_ex_iff)

lemma ensure_alarm:
  "hasType ''alarm_indicator'' (ensureEssentialElements es scr ctx) = hasType ''alarm_indicator'' es"
  by (auto simp: hasType_def ensureEssentialElements_def Let_def list_ex_iff titleElement_def
      statusElement_def mkEl_def)

lemma validated_alarm:
  "hasType ''alarm_indicator'' (elements (validateAndEnhanceSpec p scr ctx a))
   = (case p_elements p of None \<Rightarrow> True
      | Some es \<Rightarrow> es = [] \<or> hasType ''alarm_indicator'' es)"
proof -
  let ?els0 = "case p_elements p of None \<Rightarrow> [] | Some es \<Rightarrow> es"
  let ?els1 = "if length ?els0 < 6
               then ?els0 @ generateAdditionalElements scr ctx (8 - int (length ?els0)) a else ?els0"
  have "hasType ''alarm_indicator'' (elements (validateAndEnhanceSpec p scr ctx a))
        = hasType ''alarm_indicator'' (validateElementPositions ?els1)"
    by (simp add: validateAndEnhanceSpec_def Let_def ensure_alarm)
  also have "\<dots> = hasType ''alarm_indicator'' ?els1"
    by (simp only: hasType_map validate_types)
  also have "\<dots> = (?els0 = [] \<or> hasType ''alarm_indicator'' ?els0)"
  proof (cases "length ?els0 < 6")
    case True
    have "hasType ''alarm_indicator'' (generateAdditionalElements scr ctx (8 - int (length ?els0)) a)
          = (?els0 = [])"
      by (subst additional_alarm) auto
    then show ?thesis
      using True by (auto simp: hasType_def)
  next
    case False
    then have "?els0 \<noteq> []" by auto
    then show ?thesis using False by simp
  qed
  finally show ?thesis
    by (simp add: hasType_def split: option.splits)
qed

lemma alarm_name: "toLowerCase ''Alarm Screen'' = ''alarm screen''"
  by (simp add: toLowerCase_def lowerChar_def upperLetters_def lowerLetters_def)

text \<open>
  C2, as the code has it. For a screen named "Alarm Screen" the fallback specification has
  exactly the element types header title, status indicator, text, two control buttons and
  a data table (the alarm list "Active Alarms"); none is an \<open>alarm_indicator\<close>. On the
  model path the validated specification holds an \<open>alarm_indicator\<close> exactly when the
  model supplied one, or supplied no element at all (the padding then runs to its eighth
  type, \<open>alarm_indicator\<close>).
\<close>

theorem alarm_screen_elements:
  assumes "screenName scr = ''Alarm Screen''"
  shows "map el_type (elements (generateFallbackSpec scr ctx sc))
       = [''header_title'', ''status_indicator'', ''text'', ''control_button'', ''control_button'', ''data_table'']
     \<and> map el_label (drop 2 (elements (generateFallbackSpec scr ctx sc)))
       = [Some ''System Alarms & Faults'', Some ''ACK ALL'', Some ''CLEAR ALL'', Some ''Active Alarms'']
     \<and> \<not> hasType ''alarm_indicator'' (elements (generateFallbackSpec scr ctx sc))
     \<and> hasType ''alarm_indicator'' (elements (validateAndEnhanceSpec p scr ctx a))
         = (case p_elements p of None \<Rightarrow> True | Some es \<Rightarrow> es = [] \<or> hasType ''alarm_indicator'' es)"
proof -
  have els: "elements (generateFallbackSpec scr ctx sc) =
      [mkEl ''header_title'' ''Alarm Screen'' (mkPos 20 25 400 30)
            [(''fontSize'', ''24px''), (''color'', ''#ECF0F1''), (''fontWeight'', ''bold'')],
       mkEl ''status_indicator'' ''SYSTEM READY'' (mkPos 600 25 140 30)
            [(''color'', ''#ECF0F1''), (''backgroundColor'', ''#27AE60'')]]
      @ generateDocumentDrivenAlarmElements sc ctx"
    by (simp add: generateFallbackSpec_def generateAdaptiveElements_def Let_def assms alarm_name)
  have t: "map el_type (elements (generateFallbackSpec scr ctx sc))
       = [''header_title'', ''status_indicator'', ''text'', ''control_button'', ''control_button'', ''data_table'']"
    by (simp add: els generateDocumentDrivenAlarmElements_def mkEl_def tableEl_def)
  have l: "map el_label (drop 2 (elements (generateFallbackSpec scr ctx sc)))
       = [Some ''System Alarms & Faults'', Some ''ACK ALL'', Some ''CLEAR ALL'', Some ''Active Alarms'']"
    by (simp add: els generateDocumentDrivenAlarmElements_def mkEl_def tableEl_def)
  have n: "\<not> hasType ''alarm_indicator'' (elements (generateFallbackSpec scr ctx sc))"
    by (simp only: hasType_map t) simp
  from t l n validated_alarm [of p scr ctx a] show ?thesis by blast
qed

text \<open>
  The theorem at the screen "Alarm Screen": neither the fallback specification nor the
  validated specification of a reply with six control buttons holds an alarm indicator.
\<close>

theorem alarm_screen_elements_witness:
  "screenName (mkScreen ''Alarm Screen'') = ''Alarm Screen''
   \<and> \<not> hasType ''alarm_indicator'' (elements (generateFallbackSpec (mkScreen ''Alarm Screen'') demoContext demoContent))
   \<and> \<not> hasType ''alarm_indicator'' (elements (validateAndEnhanceSpec (sixButtons 50 200) (mkScreen ''Alarm Screen'') demoContext demoAgent))"
proof -
  have name: "screenName (mkScreen ''Alarm Screen'') = ''Alarm Screen''"
    by (simp add: mkScreen_def)
  have "\<not> hasType ''alarm_indicator'' (replicate 6 (mkEl ''control_button'' ''GO'' (mkPos 50 200 120 40) []))"
    by (simp add: hasType_map mkEl_def)
  then show ?thesis
    using name alarm_screen_elements [OF name, of demoContext demoContent "sixButtons 50 200" demoAgent]
    by (simp add: sixButtons_def)
qed

text \<open>
  C2 as stated fails: through \<open>generateScreenSpecification\<close>, neither path yields an
  \<open>alarm_indicator\<close> for "Alarm Screen" here.
\<close>

theorem alarm_screen_counterexample:
  "\<not> hasType ''alarm_indicator''
       (elements (fst (generateScreenSpecification CallFailed demoContent
          (mkScreen ''Alarm Screen'') demoAgent)))
   \<and> \<not> hasType ''alarm_indicator''
       (elements (fst (generateScreenSpecification (Parsed (sixButtons 50 200)) demoContent
          (mkScreen ''Alarm Screen'') demoAgent)))"
  by code_simp

subsection \<open>Header and footer bands\<close>

lemma clampHeaderElement_ok: "headerClamped hh (clampHeaderElement hh el)"
  by (auto simp: headerClamped_def clampHeaderElement_def split: option.splits)

lemma clampFooterElement_ok: "footerClamped fh (clampFooterElement (600 - fh) fh el)"
  by (auto simp: footerClamped_def clampFooterElement_def split: option.splits)

lemma clamp_headerElements:
  "headerElements (createScreenImage_clamp spec) = map (clampHeaderElement (headerHeight spec)) (headerElements spec)"
  by (simp add: headerElements_def createScreenImage_clamp_def bandElements_def split: option.splits)

lemma clamp_footerElements:
  "footerElements (createScreenImage_clamp spec)
     = map (clampFooterElement (footerY spec) (footerHeight spec)) (footerElements spec)"
  by (simp add: footerElements_def createScreenImage_clamp_def bandElements_def split: option.splits)

lemma clamp_heights:
  "headerHeight (createScreenImage_clamp spec) = headerHeight spec"
  "footerHeight (createScreenImage_clamp spec) = footerHeight spec"
  by (simp_all add: headerHeight_def footerHeight_def createScreenImage_clamp_def split: option.splits)

text \<open>
  C6, as the code has it. After the clamping pass of \<open>createScreenImage\<close>, with
  \<open>h = height || 20\<close>: every header element that has a position and a \<open>y\<close> satisfies
  \<open>y + h \<le> headerHeight\<close>, and \<open>5 \<le> y\<close> (the code's lower bound is 5, not 10) whenever
  \<open>h + 5 \<le> headerHeight\<close>; every such footer element satisfies \<open>y + h \<le> 600\<close>, and
  \<open>footerY \<le> y\<close> whenever \<open>h \<le> footerHeight\<close>. The band heights are unchanged.
\<close>

theorem createScreenImage_clamp_bands:
  "list_all (headerClamped (headerHeight spec)) (headerElements (createScreenImage_clamp spec))
   \<and> list_all (footerClamped (footerHeight spec)) (footerElements (createScreenImage_clamp spec))
   \<and> headerHeight (createScreenImage_clamp spec) = headerHeight spec
   \<and> footerY (createScreenImage_clamp spec) = footerY spec"
  by (simp add: clamp_headerElements clamp_footerElements clamp_heights footerY_def
      list_all_iff clampHeaderElement_ok clampFooterElement_ok)

text \<open>
  The theorem at a header label at \<open>y = 200\<close> and a footer button at \<open>y = 0\<close>, both 30 high:
  the label is moved up to \<open>y = 50\<close> (its lower edge on the header's 80), the button down
  to \<open>y = 540\<close>, the top of the footer.
\<close>

theorem createScreenImage_clamp_bands_witness:
  "headerElements (createScreenImage_clamp
      (bandSpec (mkEl ''text'' ''T'' (mkPos 20 200 100 30) []) (mkEl ''control_button'' ''B'' (mkPos 20 0 100 30) [])))
     = [mkEl ''text'' ''T'' (mkPos 20 50 100 30) []]
   \<and> footerElements (createScreenImage_clamp
      (bandSpec (mkEl ''text'' ''T'' (mkPos 20 200 100 30) []) (mkEl ''control_button'' ''B'' (mkPos 20 0 100 30) [])))
     = [mkEl ''control_button'' ''B'' (mkPos 20 540 100 30) []]
   \<and> headerClamped 80 (mkEl ''text'' ''T'' (mkPos 20 50 100 30) [])
   \<and> footerClamped 60 (mkEl ''control_button'' ''B'' (mkPos 20 540 100 30) [])"
proof -
  let ?spec = "bandSpec (mkEl ''text'' ''T'' (mkPos 20 200 100 30) []) (mkEl ''control_button'' ''B'' (mkPos 20 0 100 30) [])"
  have h: "headerHeight ?spec = 80" "footerHeight ?spec = 60"
    by (simp_all add: headerHeight_def footerHeight_def bandSpec_def orNum_def)
  have he: "headerElements (createScreenImage_clamp ?spec) = [mkEl ''text'' ''T'' (mkPos 20 50 100 30) []]"
    by (simp add: clamp_headerElements h)
       (simp add: headerElements_def bandSpec_def bandElements_def clampHeaderElement_def mkEl_def
          mkPos_def orNum_def)
  have fe: "footerElements (createScreenImage_clamp ?spec) = [mkEl ''control_button'' ''B'' (mkPos 20 540 100 30) []]"
    by (simp add: clamp_footerElements h footerY_def)
       (simp add: footerElements_def bandSpec_def bandElements_def clampFooterElement_def mkEl_def
          mkPos_def orNum_def)
  from createScreenImage_clamp_bands [of ?spec] show ?thesis
    by (simp add: he fe h)
qed

text \<open>
  C6 as stated fails: a header element at \<open>y = 0\<close> is moved to \<open>y = 5\<close>, below the claimed
  10; a footer element 100 high in the 60 high footer is moved to \<open>y = 500\<close>, above
  \<open>footerY = 540\<close>.
\<close>

theorem createScreenImage_clamp_counterexample:
  "\<not> list_all (posSat (\<lambda>a b w h. 10 \<le> b \<and> b + h \<le>
          headerHeight (bandSpec (mkEl ''text'' ''T'' (mkPos 20 0 100 20) [])
                                 (mkEl ''control_button'' ''B'' (mkPos 20 560 100 100) []))))
       (headerElements (createScreenImage_clamp
          (bandSpec (mkEl ''text'' ''T'' (mkPos 20 0 100 20) [])
                    (mkEl ''control_button'' ''B'' (mkPos 20 560 100 100) []))))
   \<and> \<not> list_all (posSat (\<lambda>a b w h.
          footerY (bandSpec (mkEl ''text'' ''T'' (mkPos 20 0 100 20) [])
                            (mkEl ''control_button'' ''B'' (mkPos 20 560 100 100) [])) \<le> b
          \<and> b + h \<le> 600))
       (footerElements (createScreenImage_clamp
          (bandSpec (mkEl ''text'' ''T'' (mkPos 20 0 100 20) [])
                    (mkEl ''control_button'' ''B'' (mkPos 20 560 100 100) []))))"
  by code_simp

subsection \<open>The section segmenter\<close>

lemma segmentLoop_content:
  "concat (map content (segmentLoop ls cur acc))
   = concat (map content acc) @ (case cur of None \<Rightarrow> [] | Some c \<Rightarrow> content c)
     @ map trim (filter (\<lambda>l. \<not> isHeading l) ls)"
  by (induction ls arbitrary: cur acc) (auto split: option.splits)

lemma segmentLoop_lines:
  "concat (map (\<lambda>s. heading s # content s) (segmentLoop ls cur acc))
   = concat (map (\<lambda>s. heading s # content s) acc)
     @ (case cur of
          None \<Rightarrow> (case ls of [] \<Rightarrow> [] | l # _ \<Rightarrow> if isHeading l then [] else [''Document Content''])
        | Some c \<Rightarrow> heading c # content c)
     @ map trim ls"
  by (induction ls arbitrary: cur acc) (auto split: option.splits list.splits)

text \<open>
  C5, as the code has it. A heading line opens a section and is stored in its \<open>heading\<close>,
  not in any \<open>content\<close>. So the contents of the sections, concatenated in order, are the
  trimmed non-empty lines that are not headings; headings and contents together are all
  the trimmed non-empty lines in order, each once, preceded by the synthetic heading
  "Document Content" when the first line is not a heading. An empty document yields no
  section at all.
\<close>

theorem createBasicStructure_lines:
  "concat (map content (fst (createBasicStructure text a)))
     = map trim (filter (\<lambda>l. \<not> isHeading l) (nonEmptyLines text))
   \<and> concat (map (\<lambda>s. heading s # content s) (fst (createBasicStructure text a)))
     = (case nonEmptyLines text of [] \<Rightarrow> []
        | l # _ \<Rightarrow> if isHeading l then [] else [''Document Content''])
       @ map trim (nonEmptyLines text)
   \<and> fst (createBasicStructure [] a) = []"
  by (simp add: createBasicStructure_def segmentLoop_content segmentLoop_lines nonEmptyLines_def
      trim_def)

text \<open>
  The theorem at a text of six lines, one of them blank: three sections, the headings
  "1. Main Screen" and "OVERVIEW" kept out of the contents.
\<close>

theorem createBasicStructure_lines_witness:
  "fst (createBasicStructure
     ''Intro line\<newline>  1. Main Screen \<newline>shows status\<newline>\<newline>OVERVIEW\<newline>abc'' demoAgent)
   = [\<lparr>heading = ''Document Content'', content = [''Intro line'']\<rparr>,
      \<lparr>heading = ''1. Main Screen'', content = [''shows status'']\<rparr>,
      \<lparr>heading = ''OVERVIEW'', content = [''abc'']\<rparr>]
   \<and> map trim (filter (\<lambda>l. \<not> isHeading l) (nonEmptyLines
       ''Intro line\<newline>  1. Main Screen \<newline>shows status\<newline>\<newline>OVERVIEW\<newline>abc''))
     = [''Intro line'', ''shows status'', ''abc'']"
proof -
  have "fst (createBasicStructure
     ''Intro line\<newline>  1. Main Screen \<newline>shows status\<newline>\<newline>OVERVIEW\<newline>abc'' demoAgent)
   = [\<lparr>heading = ''Document Content'', content = [''Intro line'']\<rparr>,
      \<lparr>heading = ''1. Main Screen'', content = [''shows status'']\<rparr>,
      \<lparr>heading = ''OVERVIEW'', content = [''abc'']\<rparr>]"
    by code_simp
  then show ?thesis
    using createBasicStructure_lines
      [of "''Intro line\<newline>  1. Main Screen \<newline>shows status\<newline>\<newline>OVERVIEW\<newline>abc''" demoAgent]
    by simp
qed

text \<open>
  C5 as stated fails: the one-line document "Home Screen" yields one section whose content
  is empty, so the contents do not reproduce the line; and the empty document yields no
  section, not a single empty one.
\<close>

theorem createBasicStructure_counterexample:
  "concat (map content (fst (createBasicStructure ''Home Screen'' demoAgent)))
     \<noteq> map trim (nonEmptyLines ''Home Screen'')
   \<and> length (fst (createBasicStructure [] demoAgent)) \<noteq> 1"
  by code_simp

subsection \<open>Determinism of the extractor and the segmenter\<close>

text \<open>
  C8. The result of \<open>extractSystemKeywords\<close> and the result of \<open>createBasicStructure\<close>
  depend on the text alone: whatever the state of the agent at the two invocations (in
  particular, the second invocation running on the state the first one left), the two
  results are equal.
\<close>

theorem keyword_segmenter_deterministic:
  "fst (extractSystemKeywords text a) = fst (extractSystemKeywords text b)
   \<and> fst (createBasicStructure text a) = fst (createBasicStructure text b)
   \<and> fst (extractSystemKeywords text (snd (extractSystemKeywords text a)))
       = fst (extractSystemKeywords text a)
   \<and> fst (createBasicStructure text (snd (createBasicStructure text a)))
       = fst (createBasicStructure text a)"
  by (simp add: extractSystemKeywords_def createBasicStructure_def)

text \<open>
  The theorem at a generator text, run once on the fresh agent and once on the agent the
  first run of the segmenter left behind; the keyword profile is the one below both times.
\<close>

theorem keyword_segmenter_deterministic_witness:
  "fst (extractSystemKeywords ''The Generator engine starts. Transfer Switch. generator, Engine!''
          (snd (createBasicStructure ''Home Screen'' demoAgent)))
   = \<lparr>systemType = [''generator_control''],
      operations = [''start'', ''transfer'', ''generator''],
      components = [''engine'', ''generator'', ''transfer'', ''switch''],
      controls = []\<rparr>
   \<and> fst (extractSystemKeywords ''The Generator engine starts. Transfer Switch. generator, Engine!''
          demoAgent)
   = \<lparr>systemType = [''generator_control''],
      operations = [''start'', ''transfer'', ''generator''],
      components = [''engine'', ''generator'', ''transfer'', ''switch''],
      controls = []\<rparr>"
proof -
  have "fst (extractSystemKeywords ''The Generator engine starts. Transfer Switch. generator, Engine!''
          demoAgent)
   = \<lparr>systemType = [''generator_control''],
      operations = [''start'', ''transfer'', ''generator''],
      components = [''engine'', ''generator'', ''transfer'', ''switch''],
      controls = []\<rparr>"
    by code_simp
  then show ?thesis
    using keyword_segmenter_deterministic
      [of "''The Generator engine starts. Transfer Switch. generator, Engine!''"
          "snd (createBasicStructure ''Home Screen'' demoAgent)" demoAgent]
    by simp
qed

lemma demoContext_session: "fst (getDocumentContext demoAgent) = demoContext"
  by code_simp

subsection \<open>The navigation flow\<close>

lemma find_or_first_in:
  "(case find P xs of Some h \<Rightarrow> Some h | None \<Rightarrow> (case xs of [] \<Rightarrow> None | s # _ \<Rightarrow> Some s)) = Some h
   \<Longrightarrow> h \<in> set xs"
  by (auto simp: find_Some_iff split: option.splits list.splits)

lemma find_or_first_nonempty:
  "xs \<noteq> [] \<Longrightarrow>
   \<exists>h. (case find P xs of Some h \<Rightarrow> Some h | None \<Rightarrow> (case xs of [] \<Rightarrow> None | s # _ \<Rightarrow> Some s)) = Some h"
  by (cases xs) (auto split: option.splits)

lemma generated_flow_refers:
  assumes "screens \<noteq> []"
  shows "\<exists>nav. generateConciseNavigationFlow screens = Inr nav
           \<and> list_all (refersTo screens) (screenTransitions nav)
           \<and> list_all complete (screenTransitions nav)
           \<and> length (screenTransitions nav) \<le> 6"
proof -
  obtain h where h: "(case find (\<lambda>s. str_includes (toLowerCase (screenName s)) ''home'') screens of
              Some h \<Rightarrow> Some h
            | None \<Rightarrow> (case screens of [] \<Rightarrow> None | s # _ \<Rightarrow> Some s)) = Some h"
    using find_or_first_nonempty [OF assms] by blast
  have hin: "h \<in> set screens" using h by (rule find_or_first_in)
  have others: "set (take 6 (filter (\<lambda>s. screenName s \<noteq> screenName h) screens)) \<subseteq> set screens"
    using set_take_subset by fastforce
  show ?thesis
    unfolding generateConciseNavigationFlow_def h
    using hin others
    by (auto simp: Let_def list_all_iff refersTo_def complete_def)
qed

lemma sanitize_complete: "sanitizeTransition tr = Some t \<Longrightarrow> complete t"
  by (auto simp: sanitizeTransition_def complete_def orStr_def split: rawTransition.splits option.splits if_splits)

lemma map_filter_complete: "list_all complete (List.map_filter sanitizeTransition ts)"
  by (auto simp: list_all_iff List.map_filter_def dest: sanitize_complete)

text \<open>
  C3, as the code has it. When the model sent \<open>navigationFlow.screenTransitions\<close>, the
  reconciliation pass returns exactly the sent entries normalised one by one
  (\<open>sanitizeTransition\<close>: an "A -> B" string becomes an object, an unparsable string or a
  non-object is dropped, an object keeps its \<open>from\<close> and \<open>to\<close>); every returned transition
  has a trigger and a description, and no entry is compared with the screen list. When
  the model sent none and the screen list is not empty, the transitions are generated
  from the screen list, and then every \<open>from\<close> and \<open>to\<close> is the name of an input screen.
\<close>

theorem enhanceWithTemplateData_transitions:
  "(case sentTransitions workflowData of
      Some ts \<Rightarrow>
        (\<exists>w. enhanceWithTemplateData gens workflowData screens cc = Inr w
           \<and> screenTransitions (wf_navigationFlow w) = List.map_filter sanitizeTransition ts
           \<and> list_all complete (screenTransitions (wf_navigationFlow w)))
    | None \<Rightarrow>
        screens \<noteq> [] \<longrightarrow>
        (\<exists>w. enhanceWithTemplateData gens workflowData screens cc = Inr w
           \<and> list_all (refersTo screens) (screenTransitions (wf_navigationFlow w))
           \<and> list_all complete (screenTransitions (wf_navigationFlow w))))"
proof (cases "sentTransitions workflowData")
  case (Some ts)
  then obtain nf where nf: "rw_navigationFlow workflowData = Some nf" "rn_screenTransitions nf = Some ts"
    by (auto simp: sentTransitions_def split: option.splits)
  show ?thesis
    by (simp add: Some enhanceWithTemplateData_def nf Let_def map_filter_complete)
next
  case None
  show ?thesis
  proof (simp only: None option.case, intro impI)
    assume "screens \<noteq> []"
    then obtain nav where nav: "generateConciseNavigationFlow screens = Inr nav"
      "list_all (refersTo screens) (screenTransitions nav)" "list_all complete (screenTransitions nav)"
      using generated_flow_refers by blast
    have "(case rw_navigationFlow workflowData of None \<Rightarrow> None
           | Some nf \<Rightarrow> (case rn_screenTransitions nf of None \<Rightarrow> None
               | Some ts \<Rightarrow> Some \<lparr>mermaidDiagram = rn_mermaidDiagram nf,
                   screenTransitions = List.map_filter sanitizeTransition ts\<rparr>)) = None"
      using None by (auto simp: sentTransitions_def split: option.splits)
    then show "\<exists>w. enhanceWithTemplateData gens workflowData screens cc = Inr w
           \<and> list_all (refersTo screens) (screenTransitions (wf_navigationFlow w))
           \<and> list_all complete (screenTransitions (wf_navigationFlow w))"
      using nav by (simp add: enhanceWithTemplateData_def Let_def)
  qed
qed

text \<open>
  The theorem at four screens and a reply with no navigation flow: the three generated
  transitions lead from "Home Screen" to the three other screens.
\<close>

theorem enhanceWithTemplateData_transitions_witness:
  "sentTransitions (danglingWorkflow\<lparr>rw_navigationFlow := None\<rparr>) = None
   \<and> fourScreens \<noteq> []
   \<and> (\<exists>w. enhanceWithTemplateData nameGenerators (danglingWorkflow\<lparr>rw_navigationFlow := None\<rparr>)
              fourScreens demoCondensed = Inr w
         \<and> list_all (refersTo fourScreens) (screenTransitions (wf_navigationFlow w))
         \<and> list_all complete (screenTransitions (wf_navigationFlow w)))"
proof -
  have s: "sentTransitions (danglingWorkflow\<lparr>rw_navigationFlow := None\<rparr>) = None"
    by (simp add: sentTransitions_def)
  have n: "fourScreens \<noteq> []"
    by (simp add: fourScreens_def)
  from enhanceWithTemplateData_transitions
    [where workflowData = "danglingWorkflow\<lparr>rw_navigationFlow := None\<rparr>"
       and gens = nameGenerators and screens = fourScreens and cc = demoCondensed]
  show ?thesis
    using n by (simp add: s)
qed

lemma parse_examples:
  "parseArrow ''Home Screen -> Nowhere'' = Some (''Home Screen'', ''Nowhere'')"
  "parseArrow ''no arrow here'' = None"
  by code_simp+

text \<open>
  C3 as stated fails: the reply \<open>danglingWorkflow\<close> names "Ghost Screen" and "Nowhere",
  which are no screens of the list, and the returned workflow keeps both transitions.
\<close>

theorem enhanceWithTemplateData_counterexample:
  "(case enhanceWithTemplateData nameGenerators danglingWorkflow fourScreens demoCondensed of
      Inl e \<Rightarrow> False
    | Inr w \<Rightarrow>
        map (\<lambda>t. (t_from t, t_to t)) (screenTransitions (wf_navigationFlow w))
          = [(Some ''Ghost Screen'', Some ''Home Screen''), (Some ''Home Screen'', Some ''Nowhere'')]
        \<and> \<not> list_all (refersTo fourScreens) (screenTransitions (wf_navigationFlow w)))"
  by (simp add: enhanceWithTemplateData_def danglingWorkflow_def Let_def List.map_filter_def
      sanitizeTransition_def parse_examples refersTo_def fourScreens_def mkScreen_def)

subsection \<open>Small projects take the template path\<close>

lemma getDocumentContext_agent: "snd (getDocumentContext a) = a"
  by (simp add: getDocumentContext_def extractSystemKeywords_def Let_def)

lemma home_name: "toLowerCase ''Home Screen'' = ''home screen''"
  by (simp add: toLowerCase_def lowerChar_def upperLetters_def lowerLetters_def)

lemma two_screen_flow:
  assumes "screenName scrA = ''Home Screen''" "screenName scrB = ''Settings Screen''"
  shows "\<exists>nav. generateConciseNavigationFlow [scrA, scrB] = Inr nav
    \<and> map (\<lambda>t. (t_from t, t_to t)) (screenTransitions nav)
        = [(Some ''Home Screen'', Some ''Settings Screen'')]"
  by (simp add: generateConciseNavigationFlow_def assms home_name Let_def)

lemma template_result:
  assumes "generateConciseNavigationFlow screens = Inr nav"
  shows "\<exists>ov a'. generateTemplateBasedWorkflow gens screens cc a =
      (Inr \<lparr>wf_systemOverview = ov,
            screenAnalysis = map (\<lambda>(index, s). templateEntry gens screens cc index s)
              (enumerate 0 screens),
            wf_navigationFlow = nav\<rparr>, a')"
  by (simp add: generateTemplateBasedWorkflow_def assms Let_def)

lemma small_template:
  assumes "length screens \<le> 3"
  shows "generateWorkflowFromScreens gens reply screens a modelCalls
        = (generateTemplateBasedWorkflow gens screens
             (createCondensedContext (fst (getDocumentContext a)) screens) a, modelCalls)"
proof -
  obtain ctx where g: "getDocumentContext a = (ctx, a)"
    by (metis getDocumentContext_agent prod.collapse)
  show ?thesis
    using assms by (simp add: generateWorkflowFromScreens_def g)
qed

text \<open>
  C7. With at most three screens \<open>generateWorkflowFromScreens\<close> returns what
  \<open>generateTemplateBasedWorkflow\<close> returns, whatever the language model would have
  replied, and sends it no request (\<open>modelCalls\<close> is unchanged). For the two screens
  "Home Screen" and "Settings Screen" the result is a workflow with exactly two
  \<open>screenAnalysis\<close> entries and the single transition from "Home Screen" to
  "Settings Screen".
\<close>

theorem generateWorkflowFromScreens_small:
  "(length screens \<le> 3 \<longrightarrow>
      generateWorkflowFromScreens gens reply screens a modelCalls
        = (generateTemplateBasedWorkflow gens screens
             (createCondensedContext (fst (getDocumentContext a)) screens) a, modelCalls))
   \<and> (screenName scrA = ''Home Screen'' \<and> screenName scrB = ''Settings Screen'' \<longrightarrow>
        (\<exists>w a'. generateWorkflowFromScreens gens reply [scrA, scrB] a modelCalls = ((Inr w, a'), modelCalls)
           \<and> length (screenAnalysis w) = 2
           \<and> map (\<lambda>t. (t_from t, t_to t)) (screenTransitions (wf_navigationFlow w))
               = [(Some ''Home Screen'', Some ''Settings Screen'')]))"
proof (intro conjI impI)
  assume "length screens \<le> 3"
  then show "generateWorkflowFromScreens gens reply screens a modelCalls
        = (generateTemplateBasedWorkflow gens screens
             (createCondensedContext (fst (getDocumentContext a)) screens) a, modelCalls)"
    by (rule small_template)
next
  assume names: "screenName scrA = ''Home Screen'' \<and> screenName scrB = ''Settings Screen''"
  from two_screen_flow [OF names [THEN conjunct1] names [THEN conjunct2]]
  obtain nav where nav: "generateConciseNavigationFlow [scrA, scrB] = Inr nav
    \<and> map (\<lambda>t. (t_from t, t_to t)) (screenTransitions nav)
        = [(Some ''Home Screen'', Some ''Settings Screen'')]" ..
  let ?cc = "createCondensedContext (fst (getDocumentContext a)) [scrA, scrB]"
  have run: "generateWorkflowFromScreens gens reply [scrA, scrB] a modelCalls
        = (generateTemplateBasedWorkflow gens [scrA, scrB] ?cc a, modelCalls)"
    by (rule small_template) simp
  from template_result [OF nav [THEN conjunct1], of gens ?cc a]
  obtain ov where "\<exists>a'. generateTemplateBasedWorkflow gens [scrA, scrB] ?cc a =
      (Inr \<lparr>wf_systemOverview = ov,
            screenAnalysis = map (\<lambda>(index, s). templateEntry gens [scrA, scrB] ?cc index s)
              (enumerate 0 [scrA, scrB]),
            wf_navigationFlow = nav\<rparr>, a')" ..
  then obtain a' where t: "generateTemplateBasedWorkflow gens [scrA, scrB] ?cc a =
      (Inr \<lparr>wf_systemOverview = ov,
            screenAnalysis = map (\<lambda>(index, s). templateEntry gens [scrA, scrB] ?cc index s)
              (enumerate 0 [scrA, scrB]),
            wf_navigationFlow = nav\<rparr>, a')" ..
  show "\<exists>w a'. generateWorkflowFromScreens gens reply [scrA, scrB] a modelCalls = ((Inr w, a'), modelCalls)
           \<and> length (screenAnalysis w) = 2
           \<and> map (\<lambda>t. (t_from t, t_to t)) (screenTransitions (wf_navigationFlow w))
               = [(Some ''Home Screen'', Some ''Settings Screen'')]"
    unfolding run t
    by (intro exI conjI, rule refl) (simp_all add: nav [THEN conjunct2])
qed

text \<open>
  The theorem at the two screens, with a reply at hand that would have named a ghost
  screen: the reply is not used, no request is counted.
\<close>

theorem generateWorkflowFromScreens_small_witness:
  "length [mkScreen ''Home Screen'', mkScreen ''Settings Screen''] \<le> 3
   \<and> screenName (mkScreen ''Home Screen'') = ''Home Screen''
   \<and> screenName (mkScreen ''Settings Screen'') = ''Settings Screen''
   \<and> snd (generateWorkflowFromScreens nameGenerators (WfParsed danglingWorkflow)
             [mkScreen ''Home Screen'', mkScreen ''Settings Screen''] demoAgent 0) = 0
   \<and> (\<exists>w a'. generateWorkflowFromScreens nameGenerators (WfParsed danglingWorkflow)
             [mkScreen ''Home Screen'', mkScreen ''Settings Screen''] demoAgent 0 = ((Inr w, a'), 0)
         \<and> length (screenAnalysis w) = 2
         \<and> map (\<lambda>t. (t_from t, t_to t)) (screenTransitions (wf_navigationFlow w))
               = [(Some ''Home Screen'', Some ''Settings Screen'')])"
proof -
  let ?home = "mkScreen ''Home Screen''" and ?settings = "mkScreen ''Settings Screen''"
  have len: "length [?home, ?settings] \<le> 3" by simp
  have names: "screenName ?home = ''Home Screen''" "screenName ?settings = ''Settings Screen''"
    by (simp_all add: mkScreen_def)
  note inst = generateWorkflowFromScreens_small
    [of "[?home, ?settings]" nameGenerators "WfParsed danglingWorkflow" demoAgent 0 ?home ?settings]
  from inst [THEN conjunct1, rule_format, OF len]
  have calls: "snd (generateWorkflowFromScreens nameGenerators (WfParsed danglingWorkflow)
             [?home, ?settings] demoAgent 0) = 0"
    by simp
  from inst [THEN conjunct2, rule_format, OF conjI [OF names]]
  have res: "\<exists>w a'. generateWorkflowFromScreens nameGenerators (WfParsed danglingWorkflow)
             [?home, ?settings] demoAgent 0 = ((Inr w, a'), 0)
         \<and> length (screenAnalysis w) = 2
         \<and> map (\<lambda>t. (t_from t, t_to t)) (screenTransitions (wf_navigationFlow w))
               = [(Some ''Home Screen'', Some ''Settings Screen'')]" .
  from len names calls res show ?thesis
    by (intro conjI)
qed

subsection \<open>The document reader\<close>

lemma extname_examples:
  "toLowerCase (extname ''uploads/spec.DOCX'') = ''.docx''"
  "toLowerCase (extname ''uploads/spec.txt'') = ''.txt''"
  by code_simp+

text \<open>
  The branches of \<open>readDocument\<close>. For a path whose extension is \<open>.docx\<close> in any letter
  case it returns a text and raises nothing: the extracted text, else the raw read, else
  the placeholder \<open>[Document could not be read: ...]\<close> with the message of the failed
  read. For every other extension, \<open>.txt\<close> included, it returns what the raw read returns
  and raises what the raw read raises.
\<close>

lemma readDocument_branches:
  "(toLowerCase (extname filePath) = ''.docx'' \<longrightarrow>
      fst (readDocument fs filePath a) =
        Inr (case extractRawText fs filePath of
               Inr v \<Rightarrow> v
             | Inl e \<Rightarrow> (case readFileSync fs filePath of
                   Inr c \<Rightarrow> c
                 | Inl e2 \<Rightarrow> ''[Document could not be read: '' @ errorMessage e2 @ '']'')))
   \<and> (toLowerCase (extname filePath) \<noteq> ''.docx'' \<longrightarrow>
        fst (readDocument fs filePath a) = readFileSync fs filePath)"
  by (simp add: readDocument_def Let_def split: sum.splits)

text \<open>
  C4. \<open>readDocument\<close> at the path \<open>uploads/spec.txt\<close> on a file system with no file: the
  read fails with \<open>ENOENT\<close>, and \<open>readDocument\<close> raises that error; it returns no text, and
  so no placeholder. At \<open>uploads/spec.DOCX\<close>, on the same file system, it returns the
  placeholder.
\<close>

theorem readDocument_counterexample:
  "fst (readDocument emptyFs ''uploads/spec.txt'' demoAgent)
     = Inl (ReadError ''ENOENT: no such file or directory, open uploads/spec.txt'')
   \<and> \<not> (\<exists>text. fst (readDocument emptyFs ''uploads/spec.txt'' demoAgent) = Inr text)
   \<and> fst (readDocument emptyFs ''uploads/spec.DOCX'' demoAgent)
       = Inr ''[Document could not be read: ENOENT: no such file or directory, open uploads/spec.DOCX]''"
  by (simp add: readDocument_def Let_def extname_examples emptyFs_def errorMessage_def)

end
